theory Spec2Isabelle
  imports Main "HOL-Library.Word"
begin

unbundle bit_operations_syntax

chapter \<open>Definitions: the daemon's code as HOL functions\<close>

text \<open>
  A shallow embedding of the parts of the service manager that its specification makes
  promises about: the status aggregation of the web client, the authorizer, the
  registry's HTTP handler and manifest writes, rollback, the SFTP file handler, the
  payload classifier, the event bus and the removal of a service. Each function keeps
  the name and the case order of its source. Results of the operating system, of the
  mesh-VPN client and of other libraries are inputs of the functions that use them.
\<close>

section \<open>Errors and the Go string helpers the code calls\<close>

text \<open>
  A Go \<^verbatim>\<open>error\<close> is a value carrying its message. Where the source formats a
  message with run-time arguments (\<^verbatim>\<open>fmt.Errorf("...: %v", err)\<close>), the model keeps
  the constant part of the format string.
\<close>

datatype error = Err string

text \<open>\<^verbatim>\<open>strings.HasPrefix(s, prefix)\<close>.\<close>

definition HasPrefix :: "string \<Rightarrow> string \<Rightarrow> bool" where
  "HasPrefix s p = (take (length p) s = p)"

text \<open>\<^verbatim>\<open>strings.CutPrefix(s, prefix)\<close>: without the prefix, \<open>s\<close> itself and false.\<close>

definition CutPrefix :: "string \<Rightarrow> string \<Rightarrow> string \<times> bool" where
  "CutPrefix s p = (if HasPrefix s p then (drop (length p) s, True) else (s, False))"

text \<open>\<^verbatim>\<open>strings.Index(s, sep)\<close>: where \<open>sep\<close> first occurs in \<open>s\<close>, if it does.\<close>

fun Index :: "string \<Rightarrow> string \<Rightarrow> nat option" where
  "Index [] sep = (if sep = [] then Some 0 else None)"
| "Index (c # cs) sep =
     (if HasPrefix (c # cs) sep then Some 0 else map_option Suc (Index cs sep))"

text \<open>\<^verbatim>\<open>strings.Contains(s, sep)\<close>.\<close>

definition Contains :: "string \<Rightarrow> string \<Rightarrow> bool" where
  "Contains s sep = (Index s sep \<noteq> None)"

text \<open>\<^verbatim>\<open>strings.Cut(s, sep)\<close>: the text before and after the first \<open>sep\<close>, and whether
  \<open>sep\<close> was found; without it, \<open>s\<close>, the empty string and false.\<close>

definition Cut :: "string \<Rightarrow> string \<Rightarrow> string \<times> string \<times> bool" where
  "Cut s sep =
     (case Index s sep of
        None \<Rightarrow> (s, [], False)
      | Some i \<Rightarrow> (take i s, drop (i + length sep) s, True))"

text \<open>\<^verbatim>\<open>strings.Count(s, "/")\<close> for the one-byte separator the registry counts.\<close>

definition CountByte :: "string \<Rightarrow> char \<Rightarrow> nat" where
  "CountByte s c = length (filter (\<lambda>x. x = c) s)"


section \<open>Status aggregation (\<^verbatim>\<open>web/lib/status.js\<close>)\<close>

text \<open>The \<^verbatim>\<open>State\<close> table of the web client: states are JavaScript strings.\<close>

definition State_Running :: string where "State_Running = ''running''"
definition State_Starting :: string where "State_Starting = ''starting''"
definition State_Stopping :: string where "State_Stopping = ''stopping''"
definition State_Stopped :: string where "State_Stopped = ''stopped''"
definition State_Partial :: string where "State_Partial = ''partial''"
definition State_Unknown :: string where "State_Unknown = ''unknown''"

text \<open>
  The status document the daemon sends: \<^verbatim>\<open>ServiceStatusData\<close> with its list of
  \<^verbatim>\<open>ComponentStatusData\<close> (JSON keys \<^verbatim>\<open>components\<close>, \<^verbatim>\<open>name\<close>, \<^verbatim>\<open>status\<close>).
\<close>

record ComponentStatusData =
  name :: string
  status :: string

record ServiceStatusData =
  serviceName :: string
  serviceType :: string
  components :: "ComponentStatusData list"

text \<open>
  The values of the Go type \<^verbatim>\<open>ComponentStatus\<close>: the only strings the daemon puts in
  a component's \<^verbatim>\<open>status\<close> field.
\<close>

definition ComponentStatus :: "string list" where
  "ComponentStatus = [''starting'', ''running'', ''stopping'', ''stopped'', ''unknown'']"

text \<open>
  \<^verbatim>\<open>statusToState\<close>. \<^verbatim>\<open>uniqueStates\<close> is a JavaScript \<^verbatim>\<open>Set\<close>: \<^verbatim>\<open>has\<close> is
  membership and \<^verbatim>\<open>size\<close> the number of distinct states. \<^verbatim>\<open>states[0]\<close> is read
  only when the size is 1, so the list is not empty there.
\<close>

definition statusToState :: "ServiceStatusData \<Rightarrow> string" where
  "statusToState st =
     (let states = map status (components st);
          uniqueStates = remdups states
      in if State_Stopping \<in> set uniqueStates then State_Stopping
         else if State_Starting \<in> set uniqueStates then State_Starting
         else if length uniqueStates = 1 then
           (case states of
              [] \<Rightarrow> State_Unknown
            | s0 # _ \<Rightarrow>
                if s0 = State_Running then State_Running
                else if s0 = State_Stopped then State_Stopped
                else State_Unknown)
         else State_Partial)"


text \<open>A status document with one component per given state, to run the aggregator
  on.\<close>

definition status_example :: "string list \<Rightarrow> ServiceStatusData" where
  "status_example sts = \<lparr>serviceName = ''myapp'', serviceType = ''docker'',
     components = map (\<lambda>st. \<lparr>name = ''web'', status = st\<rparr>) sts\<rparr>"


section \<open>The authorizer (\<^verbatim>\<open>verifyCaller\<close> in \<^verbatim>\<open>catch.go\<close>)\<close>

text \<open>
  What the mesh-VPN client library reports: the peer's node (\<^verbatim>\<open>who.Node\<close>, with its
  tags and owning user) and the local node (\<^verbatim>\<open>st.Self\<close>, with its tags and user id).
  A node is tagged when its tag list is not empty (\<^verbatim>\<open>IsTagged\<close> of the library).
\<close>

record Node =
  Tags :: "string list"
  User :: int

record PeerStatus =
  SelfTags :: "string list"
  UserID :: int

record WhoIsResponse =
  WhoNode :: Node

record Status =
  Self :: PeerStatus

text \<open>
  The local client: \<^verbatim>\<open>StatusWithoutPeers\<close> and \<^verbatim>\<open>WhoIs\<close> may each fail; their
  results are inputs of the model.
\<close>

record LocalClient =
  StatusWithoutPeers :: "error + Status"
  WhoIs :: "string \<Rightarrow> error + WhoIsResponse"

definition Node_IsTagged :: "Node \<Rightarrow> bool" where
  "Node_IsTagged n = (0 < length (Tags n))"

definition PeerStatus_IsTagged :: "PeerStatus \<Rightarrow> bool" where
  "PeerStatus_IsTagged ps = (0 < length (SelfTags ps))"

fun overlaps :: "string list \<Rightarrow> string list \<Rightarrow> bool" where
  "overlaps [] b = False"
| "overlaps (x # a) b = (if x \<in> set b then True else overlaps a b)"

definition errUnauthorized :: error where
  "errUnauthorized = Err ''unauthorized connection''"

text \<open>\<^verbatim>\<open>verifyCaller\<close>: \<open>None\<close> is Go's \<^verbatim>\<open>nil\<close>, the caller is allowed.\<close>

definition verifyCaller :: "LocalClient \<Rightarrow> string \<Rightarrow> error option" where
  "verifyCaller lc remoteAddr =
     (case StatusWithoutPeers lc of
        Inl err \<Rightarrow> Some (Err ''failed to get local client status'')
      | Inr st \<Rightarrow>
          (case WhoIs lc remoteAddr of
             Inl err \<Rightarrow> Some (Err ''failed to get whois'')
           | Inr who \<Rightarrow>
               if Node_IsTagged (WhoNode who) then
                 (if PeerStatus_IsTagged (Self st)
                      \<and> overlaps (Tags (WhoNode who)) (SelfTags (Self st))
                  then None
                  else Some errUnauthorized)
               else if PeerStatus_IsTagged (Self st) then None
               else if UserID (Self st) = User (WhoNode who) then None
               else Some errUnauthorized))"


section \<open>The registry's HTTP handler (\<^verbatim>\<open>containerRegistry.ServeHTTP\<close>)\<close>

record Request =
  RemoteAddr :: string
  Method :: string

text \<open>
  What the handler does with the request: it answers with \<^verbatim>\<open>http.Error\<close> (a status
  code and a body), or it hands the request to the registry (\<^verbatim>\<open>cr.r.ServeHTTP\<close>).
\<close>

datatype Response = HttpError nat string | Forwarded

definition StatusUnauthorized :: nat where "StatusUnauthorized = 401"
definition StatusMethodNotAllowed :: nat where "StatusMethodNotAllowed = 405"

fun errorText :: "error \<Rightarrow> string" where
  "errorText (Err m) = m"

text \<open>
  \<^verbatim>\<open>netip.ParseAddrPort\<close> and \<^verbatim>\<open>Addr().IsLoopback()\<close> belong to Go's standard
  library: the model takes them as the parameters \<open>ParseAddrPort\<close> and \<open>IsLoopback\<close>.
\<close>

definition ServeHTTP ::
  "(string \<Rightarrow> error + 'ap) \<Rightarrow> ('ap \<Rightarrow> bool) \<Rightarrow> LocalClient \<Rightarrow> Request \<Rightarrow> Response" where
  "ServeHTTP ParseAddrPort IsLoopback lc r =
     (case ParseAddrPort (RemoteAddr r) of
        Inl err \<Rightarrow> HttpError StatusMethodNotAllowed ''Registry is read-only''
      | Inr ap \<Rightarrow>
          if IsLoopback ap then
            (if Method r \<noteq> ''GET'' \<and> Method r \<noteq> ''HEAD'' \<and> Method r \<noteq> ''OPTIONS''
             then HttpError StatusMethodNotAllowed ''Registry is read-only''
             else Forwarded)
          else
            (case verifyCaller lc (RemoteAddr r) of
               Some err \<Rightarrow> HttpError StatusUnauthorized (errorText err)
             | None \<Rightarrow> Forwarded))"

text \<open>Concrete inputs used to run the definitions.\<close>

definition untagged_self :: Status where
  "untagged_self = \<lparr>Self = \<lparr>SelfTags = [], UserID = 7\<rparr>\<rparr>"

definition tagged_peer :: WhoIsResponse where
  "tagged_peer = \<lparr>WhoNode = \<lparr>Tags = [''tag:ci''], User = 0\<rparr>\<rparr>"

definition same_user_peer :: WhoIsResponse where
  "same_user_peer = \<lparr>WhoNode = \<lparr>Tags = [], User = 7\<rparr>\<rparr>"

definition other_user_peer :: WhoIsResponse where
  "other_user_peer = \<lparr>WhoNode = \<lparr>Tags = [], User = 8\<rparr>\<rparr>"

definition lc_tagged_peer :: LocalClient where
  "lc_tagged_peer = \<lparr>StatusWithoutPeers = Inr untagged_self, WhoIs = (\<lambda>_. Inr tagged_peer)\<rparr>"

definition lc_same_user :: LocalClient where
  "lc_same_user = \<lparr>StatusWithoutPeers = Inr untagged_self, WhoIs = (\<lambda>_. Inr same_user_peer)\<rparr>"

definition lc_other_user :: LocalClient where
  "lc_other_user = \<lparr>StatusWithoutPeers = Inr untagged_self, WhoIs = (\<lambda>_. Inr other_user_peer)\<rparr>"

text \<open>A toy address parser for the examples: an address is loopback when it starts
  with \<^verbatim>\<open>127.\<close>; the empty string does not parse.\<close>

definition parse_example :: "string \<Rightarrow> error + string" where
  "parse_example a = (if a = [] then Inl (Err ''no address'') else Inr a)"

definition loopback_example :: "string \<Rightarrow> bool" where
  "loopback_example a = HasPrefix a ''127.''"


section \<open>The store (package \<^verbatim>\<open>db\<close>)\<close>

text \<open>
  Modelled from the spec: the types and the mutators of the store package (\<^verbatim>\<open>db.Data\<close>,
  \<^verbatim>\<open>db.Service\<close>, \<^verbatim>\<open>db.ArtifactStore\<close>, \<^verbatim>\<open>db.ImageRepo\<close>, \<^verbatim>\<open>Store.Get\<close>,
  \<^verbatim>\<open>Store.Set\<close>, \<^verbatim>\<open>Store.MutateData\<close>, \<^verbatim>\<open>Store.MutateService\<close>) are not among
  the sources; only their uses are. The spec gives a service a name, a type, a
  \<^verbatim>\<open>generation\<close>, a \<^verbatim>\<open>latest_generation\<close>, an optional network spec and an artifact
  index with the helpers \<^verbatim>\<open>Latest(name) \<rightarrow> (path, ok)\<close> and
  \<^verbatim>\<open>Gen(name, g) \<rightarrow> (path, ok)\<close>; an image repository maps a reference to
  \<^verbatim>\<open>{content_type, manifest_blob_hash}\<close>. The artifact index is modelled by what its two
  helpers return.
\<close>

datatype ArtifactName =
    ArtifactBinary | ArtifactScript | ArtifactEnvFile | ArtifactDockerComposeFile
  | ArtifactDockerComposeNetwork | ArtifactSystemdUnit | ArtifactSystemdTimerFile
  | ArtifactNetNSService

record ArtifactStore =
  Latest :: "ArtifactName \<Rightarrow> string \<times> bool"
  Gen :: "ArtifactName \<Rightarrow> int \<Rightarrow> string \<times> bool"

datatype ServiceType = ServiceTypeSystemd | ServiceTypeDockerCompose | ServiceTypeOther string

record TailscaleNetwork =
  StableID :: string

record Service =
  Name :: string
  SvcType :: ServiceType
  Generation :: int
  LatestGeneration :: int
  Artifacts :: ArtifactStore
  TSNet :: "TailscaleNetwork option"

record ImageManifest =
  ContentType :: string
  BlobHash :: string

record ImageRepo =
  Refs :: "string \<rightharpoonup> ImageManifest"

record Data =
  Services :: "string \<rightharpoonup> Service"
  Images :: "string \<rightharpoonup> ImageRepo"

text \<open>
  The store holds the document; reading it and writing it may fail (the file on disk),
  which the two error fields say.
\<close>

record Store =
  content :: Data
  read_err :: "error option"
  write_err :: "error option"

definition DB_Get :: "Store \<Rightarrow> error + Data" where
  "DB_Get db = (case read_err db of Some e \<Rightarrow> Inl e | None \<Rightarrow> Inr (content db))"

text \<open>\<^verbatim>\<open>Set(d)\<close>: total replacement.\<close>

definition DB_Set :: "Store \<Rightarrow> Data \<Rightarrow> error option \<times> Store" where
  "DB_Set db d =
     (case write_err db of Some e \<Rightarrow> (Some e, db) | None \<Rightarrow> (None, db\<lparr>content := d\<rparr>))"

text \<open>\<^verbatim>\<open>Mutate(fn)\<close>: read-modify-write; \<open>fn\<close> works on a copy and returns an error to
  abort.\<close>

definition MutateData :: "Store \<Rightarrow> (Data \<Rightarrow> error + Data) \<Rightarrow> error + Store \<times> Data" where
  "MutateData db fn =
     (case DB_Get db of
        Inl e \<Rightarrow> Inl e
      | Inr d \<Rightarrow>
          (case fn d of
             Inl e \<Rightarrow> Inl e
           | Inr d' \<Rightarrow>
               (case DB_Set db d' of
                  (Some e, _) \<Rightarrow> Inl e
                | (None, db') \<Rightarrow> Inr (db', d'))))"

definition emptyArtifacts :: ArtifactStore where
  "emptyArtifacts = \<lparr>Latest = (\<lambda>_. ([], False)), Gen = (\<lambda>_ _. ([], False))\<rparr>"

definition newService :: "string \<Rightarrow> Service" where
  "newService sn = \<lparr>Name = sn, SvcType = ServiceTypeOther [], Generation = 0,
     LatestGeneration = 0, Artifacts = emptyArtifacts, TSNet = None\<rparr>"

text \<open>\<^verbatim>\<open>MutateService(name, fn)\<close>: the convenience mutator; creates the service if
  absent.\<close>

definition MutateService ::
  "Store \<Rightarrow> string \<Rightarrow> (Data \<Rightarrow> Service \<Rightarrow> error + Service) \<Rightarrow> error + Store \<times> Data \<times> Service" where
  "MutateService db sn fn =
     (case DB_Get db of
        Inl e \<Rightarrow> Inl e
      | Inr d \<Rightarrow>
          (let s = (case Services d sn of None \<Rightarrow> newService sn | Some s \<Rightarrow> s)
           in case fn d s of
                Inl e \<Rightarrow> Inl e
              | Inr s' \<Rightarrow>
                  (let d' = d\<lparr>Services := (Services d)(sn \<mapsto> s')\<rparr>
                   in case DB_Set db d' of
                        (Some e, _) \<Rightarrow> Inl e
                      | (None, db') \<Rightarrow> Inr (db', d', s'))))"

text \<open>\<^verbatim>\<open>getDB\<close> of \<^verbatim>\<open>catch.go\<close>.\<close>

definition getDB :: "Store \<Rightarrow> error + Data" where
  "getDB db = (case DB_Get db of Inl e \<Rightarrow> Inl (Err ''failed to get data'') | Inr d \<Rightarrow> Inr d)"

definition errServiceNotFound :: error where
  "errServiceNotFound = Err ''service not found''"

text \<open>\<^verbatim>\<open>serviceView\<close> of \<^verbatim>\<open>catch.go\<close>.\<close>

definition serviceView :: "Store \<Rightarrow> string \<Rightarrow> error + Service" where
  "serviceView db sn =
     (case getDB db of
        Inl e \<Rightarrow> Inl e
      | Inr d \<Rightarrow> (case Services d sn of None \<Rightarrow> Inl errServiceNotFound | Some sv \<Rightarrow> Inr sv))"


section \<open>Rollback (\<^verbatim>\<open>rollbackCmdFunc\<close> in \<^verbatim>\<open>tty.go\<close>)\<close>

text \<open>
  Go's \<^verbatim>\<open>int\<close> is 64 bits wide and wraps: \<open>int64\<close> brings an integer into its range.
\<close>

definition int64 :: "int \<Rightarrow> int" where
  "int64 x = (x + 2 ^ 63) mod 2 ^ 64 - 2 ^ 63"

text \<open>
  The function \<^verbatim>\<open>rollbackCmdFunc\<close> hands to \<^verbatim>\<open>MutateService\<close>. The constant
  \<^verbatim>\<open>maxGenerations\<close> is declared outside the sources: it is a parameter.
\<close>

definition rollbackFn :: "int \<Rightarrow> Data \<Rightarrow> Service \<Rightarrow> error + Service" where
  "rollbackFn maxGenerations d s =
     (if Generation s = 0 then Inl (Err ''no generation to rollback'')
      else
        (let minG = int64 (LatestGeneration s - maxGenerations);
             gen = int64 (Generation s - 1)
         in if gen < minG then Inl (Err ''generation is too old'')
            else if gen = 0 then Inl (Err ''generation is the oldest, cannot rollback'')
            else Inr (s\<lparr>Generation := gen\<rparr>)))"

text \<open>
  The installer the command calls afterwards (\<^verbatim>\<open>NewInstaller\<close>, \<^verbatim>\<open>InstallGen\<close>) is
  outside the sources; what the two calls return is an input.
\<close>

record Installers =
  NewInstaller :: "string \<Rightarrow> error option"
  InstallGen :: "string \<Rightarrow> int \<Rightarrow> error option"

definition rollbackCmdFunc ::
  "int \<Rightarrow> Installers \<Rightarrow> Store \<Rightarrow> string \<Rightarrow> error option \<times> Store" where
  "rollbackCmdFunc maxGenerations inst db sn =
     (case MutateService db sn (rollbackFn maxGenerations) of
        Inl err \<Rightarrow> (Some (Err ''failed to rollback service''), db)
      | Inr (db', d, s) \<Rightarrow>
          (case NewInstaller inst sn of
             Some err \<Rightarrow> (Some (Err ''failed to create installer''), db')
           | None \<Rightarrow> (InstallGen inst sn (Generation s), db')))"

text \<open>Concrete inputs: a store holding one service \<^verbatim>\<open>myapp\<close>, and installers that
  succeed.\<close>

definition myapp :: "int \<Rightarrow> int \<Rightarrow> Service" where
  "myapp g l = \<lparr>Name = ''myapp'', SvcType = ServiceTypeDockerCompose, Generation = g,
     LatestGeneration = l, Artifacts = emptyArtifacts, TSNet = None\<rparr>"

definition myapp_store :: "int \<Rightarrow> int \<Rightarrow> Store" where
  "myapp_store g l = \<lparr>content = \<lparr>Services = [''myapp'' \<mapsto> myapp g l], Images = Map.empty\<rparr>,
     read_err = None, write_err = None\<rparr>"

definition installers_ok :: Installers where
  "installers_ok = \<lparr>NewInstaller = (\<lambda>_. None), InstallGen = (\<lambda>_ _. None)\<rparr>"

definition generation_of :: "Store \<Rightarrow> string \<Rightarrow> int option" where
  "generation_of db sn = map_option Generation (Services (content db) sn)"


section \<open>The SFTP file handler\<close>

text \<open>
  \<^verbatim>\<open>serviceAndUser\<close> of \<^verbatim>\<open>catch.go\<close>, on the session's user string
  (\<^verbatim>\<open>conn.User()\<close>): \<^verbatim>\<open>user@service\<close>, or the service alone. It returns the service
  first, the user second.
\<close>

definition serviceAndUser :: "string \<Rightarrow> error + string \<times> string" where
  "serviceAndUser connUser =
     (if connUser = [] then Inl (Err ''empty user'')
      else
        (case Cut connUser ''@'' of
           (user, service, ok) \<Rightarrow>
             if \<not> ok then Inr (connUser, [])
             else if Contains service ''@'' then Inl (Err ''invalid user'')
             else Inr (service, user)))"

text \<open>
  The host the handler runs on: the configured services root, the store, and the
  operations of the operating system and of Go's library that the handler calls
  (\<^verbatim>\<open>filepath.Join\<close>, \<^verbatim>\<open>os.Open\<close>, \<^verbatim>\<open>os.OpenFile\<close>, and \<^verbatim>\<open>ensureDirs\<close> with its
  \<^verbatim>\<open>MkdirAll\<close> and \<^verbatim>\<open>Chown\<close>). An opened file is named by its path.
\<close>

record Host =
  ServicesRoot :: string
  DB :: Store
  Join :: "string list \<Rightarrow> string"
  Open :: "string \<Rightarrow> error option"
  OpenFile :: "string \<Rightarrow> error option"
  ensureDirs :: "string \<Rightarrow> string \<Rightarrow> error option"

definition serviceRootDir :: "Host \<Rightarrow> string \<Rightarrow> string" where
  "serviceRootDir h sn = Join h [ServicesRoot h, sn]"

definition serviceDataDir :: "Host \<Rightarrow> string \<Rightarrow> string" where
  "serviceDataDir h sn = Join h [serviceRootDir h sn, ''data'']"

text \<open>\<^verbatim>\<open>envFile\<close> of \<^verbatim>\<open>tty.go\<close>: the parameter \<open>staged\<close> is not read.\<close>

definition envFile :: "Service \<Rightarrow> bool \<Rightarrow> error + string" where
  "envFile sv staged = (let af = Artifacts sv; ef = fst (Latest af ArtifactEnvFile) in Inr ef)"

text \<open>\<^verbatim>\<open>resolvePath\<close>: the path on the host for a virtual path of the session.\<close>

definition resolvePath :: "Host \<Rightarrow> string \<Rightarrow> string \<Rightarrow> error + string" where
  "resolvePath h connUser fullPath =
     (case serviceAndUser connUser of
        Inl err \<Rightarrow> Inl err
      | Inr (sn, _) \<Rightarrow>
          if fullPath = ''/env'' \<or> fullPath = ''/stage/env'' then
            (case serviceView (DB h) sn of
               Inl err \<Rightarrow> Inl err
             | Inr sv \<Rightarrow>
                 (case envFile sv (fullPath = ''/stage/env'') of
                    Inl err \<Rightarrow> Inl err
                  | Inr ef \<Rightarrow> Inr ef))
          else
            (case CutPrefix fullPath ''/data'' of
               (path, ok) \<Rightarrow>
                 if \<not> ok then Inl (Err ''invalid path'')
                 else if \<not> HasPrefix path ''/'' \<and> path \<noteq> [] then Inl (Err ''invalid path'')
                 else if path = ''/.env'' then Inl (Err ''invalid path'')
                 else
                   (let svcDir = serviceRootDir h sn
                    in Inr (Join h [svcDir, fullPath]))))"

record SftpRequest =
  SftpMethod :: string
  Filepath :: string

text \<open>\<^verbatim>\<open>Fileread\<close>: the opened file, named by its path, or the error.\<close>

definition Fileread :: "Host \<Rightarrow> string \<Rightarrow> SftpRequest \<Rightarrow> error + string" where
  "Fileread h connUser req =
     (if SftpMethod req \<noteq> ''Get'' then Inl (Err ''unsupported method'')
      else
        (case resolvePath h connUser (Filepath req) of
           Inl err \<Rightarrow> Inl err
         | Inr path \<Rightarrow> (case Open h path of Some err \<Rightarrow> Inl err | None \<Rightarrow> Inr path)))"

text \<open>
  The configuration \<^verbatim>\<open>binFile\<close> and \<^verbatim>\<open>envFile\<close> of the handler give to
  \<^verbatim>\<open>NewFileInstaller\<close> (the installer itself is outside the sources; what
  \<^verbatim>\<open>NewFileInstaller\<close> returns for a configuration is the parameter \<open>newInst\<close>).
\<close>

record FileInstallerCfg =
  EnvFile :: bool
  CfgServiceName :: string
  CfgUser :: string
  StageOnly :: bool

text \<open>What a write request gets to write into: a file of the data directory, or an
  installer.\<close>

datatype Writer = DataFile string | Installer FileInstallerCfg

definition uploadFile :: "Host \<Rightarrow> string \<Rightarrow> string \<Rightarrow> error + Writer" where
  "uploadFile h connUser dst =
     (case serviceAndUser connUser of
        Inl err \<Rightarrow> Inl err
      | Inr (sn, user) \<Rightarrow>
          (case ensureDirs h sn user of
             Some err \<Rightarrow> Inl (Err ''failed to create directories'')
           | None \<Rightarrow>
               (case resolvePath h connUser dst of
                  Inl err \<Rightarrow> Inl err
                | Inr path \<Rightarrow>
                    (case OpenFile h path of
                       Some err \<Rightarrow> Inl err
                     | None \<Rightarrow> Inr (DataFile path)))))"

definition handler_envFile ::
  "Host \<Rightarrow> (FileInstallerCfg \<Rightarrow> error option) \<Rightarrow> string \<Rightarrow> bool \<Rightarrow> error + Writer" where
  "handler_envFile h newInst connUser install =
     (case serviceAndUser connUser of
        Inl err \<Rightarrow> Inl err
      | Inr (sn, user) \<Rightarrow>
          (case serviceView (DB h) sn of
             Inl err \<Rightarrow>
               if err \<noteq> errServiceNotFound then Inl err
               else
                 (let cfg = \<lparr>EnvFile = True, CfgServiceName = sn, CfgUser = user,
                             StageOnly = True\<rparr>
                  in case newInst cfg of Some e \<Rightarrow> Inl e | None \<Rightarrow> Inr (Installer cfg))
           | Inr _ \<Rightarrow>
               (let cfg = \<lparr>EnvFile = True, CfgServiceName = sn, CfgUser = user,
                           StageOnly = (\<not> install)\<rparr>
                in case newInst cfg of Some e \<Rightarrow> Inl e | None \<Rightarrow> Inr (Installer cfg))))"

definition binFile ::
  "(FileInstallerCfg \<Rightarrow> error option) \<Rightarrow> string \<Rightarrow> bool \<Rightarrow> error + Writer" where
  "binFile newInst connUser install =
     (case serviceAndUser connUser of
        Inl err \<Rightarrow> Inl err
      | Inr (sn, user) \<Rightarrow>
          (let cfg = \<lparr>EnvFile = False, CfgServiceName = sn, CfgUser = user,
                      StageOnly = (\<not> install)\<rparr>
           in case newInst cfg of Some e \<Rightarrow> Inl e | None \<Rightarrow> Inr (Installer cfg)))"

text \<open>\<^verbatim>\<open>Filewrite\<close>. The handler also remembers the installer under the request's path
  (\<^verbatim>\<open>fileMapping\<close>), which only \<^verbatim>\<open>Filecmd\<close> reads.\<close>

definition Filewrite ::
  "Host \<Rightarrow> (FileInstallerCfg \<Rightarrow> error option) \<Rightarrow> string \<Rightarrow> SftpRequest \<Rightarrow> error + Writer" where
  "Filewrite h newInst connUser req =
     (if SftpMethod req \<noteq> ''Put'' then Inl (Err ''unsupported method'')
      else if HasPrefix (Filepath req) ''/data/'' then uploadFile h connUser (Filepath req)
      else if Filepath req = ''/'' \<or> Filepath req = ''/stage''
        then binFile newInst connUser (Filepath req = ''/'')
      else if Filepath req = ''/env'' \<or> Filepath req = ''/stage/env''
        then handler_envFile h newInst connUser (Filepath req = ''/env'')
      else Inl (Err ''unsupported path''))"

text \<open>Concrete inputs: a host whose operations all succeed, with a join that puts a
  slash between the parts, and the store of \<^verbatim>\<open>myapp\<close> with an env file.\<close>

definition myapp_env :: Service where
  "myapp_env = \<lparr>Name = ''myapp'', SvcType = ServiceTypeSystemd, Generation = 2,
     LatestGeneration = 2,
     Artifacts = \<lparr>Latest = (\<lambda>n. if n = ArtifactEnvFile then (''/srv/myapp/env/env-2'', True)
                                else ([], False)),
                  Gen = (\<lambda>_ _. ([], False))\<rparr>,
     TSNet = None\<rparr>"

fun join_example :: "string list \<Rightarrow> string" where
  "join_example [] = []"
| "join_example [x] = x"
| "join_example (x # y # ys) =
     (if HasPrefix y ''/'' then x @ join_example (y # ys) else x @ ''/'' @ join_example (y # ys))"

definition host_example :: Host where
  "host_example = \<lparr>ServicesRoot = ''/srv'',
     DB = \<lparr>content = \<lparr>Services = [''myapp'' \<mapsto> myapp_env], Images = Map.empty\<rparr>,
           read_err = None, write_err = None\<rparr>,
     Join = join_example, Open = (\<lambda>_. None), OpenFile = (\<lambda>_. None),
     ensureDirs = (\<lambda>_ _. None)\<rparr>"


text \<open>
  Go's \<^verbatim>\<open>filepath.Join\<close> and \<^verbatim>\<open>filepath.Clean\<close> on Unix paths, to run the handler on
  concrete paths: \<^verbatim>\<open>Clean\<close> drops empty and \<^verbatim>\<open>.\<close> elements and lets each
  \<^verbatim>\<open>..\<close> remove the element before it (none above the root; leading \<^verbatim>\<open>..\<close>
  elements of a relative path stay); \<^verbatim>\<open>Join\<close> skips leading empty elements, puts a
  slash between the others and cleans the result.
\<close>

fun split_path :: "string \<Rightarrow> string list" where
  "split_path [] = [[]]"
| "split_path (c # cs) =
     (if c = CHR ''/'' then [] # split_path cs
      else (case split_path cs of [] \<Rightarrow> [[c]] | x # xs \<Rightarrow> (c # x) # xs))"

fun join_sep :: "string list \<Rightarrow> string" where
  "join_sep [] = []"
| "join_sep [x] = x"
| "join_sep (x # y # ys) = x @ ''/'' @ join_sep (y # ys)"

text \<open>One element of the path against the elements kept so far (last kept first).\<close>

definition clean_step :: "bool \<Rightarrow> string list \<Rightarrow> string \<Rightarrow> string list" where
  "clean_step rooted kept el =
     (if el = [] \<or> el = ''.'' then kept
      else if el = ''..'' then
        (case kept of
           [] \<Rightarrow> if rooted then [] else [''..'']
         | x # xs \<Rightarrow> if x = ''..'' then ''..'' # x # xs else xs)
      else el # kept)"

definition Clean :: "string \<Rightarrow> string" where
  "Clean p =
     (if p = [] then ''.''
      else
        (let rooted = HasPrefix p ''/'';
             kept = rev (foldl (clean_step rooted) [] (split_path p))
         in if rooted then ''/'' @ join_sep kept
            else if kept = [] then ''.''
            else join_sep kept))"

fun filepath_Join :: "string list \<Rightarrow> string" where
  "filepath_Join [] = []"
| "filepath_Join (e # es) = (if e = [] then filepath_Join es else Clean (join_sep (e # es)))"

text \<open>
  The host as the daemon sets it up by default (\<^verbatim>\<open>main\<close>): the data directory is
  \<^verbatim>\<open>data\<close> under the working directory, here \<^verbatim>\<open>/home/catch\<close>, and the services root
  is \<^verbatim>\<open>services\<close> under it. Every file opens.
\<close>

definition host_default :: Host where
  "host_default = \<lparr>ServicesRoot = ''/home/catch/data/services'',
     DB = \<lparr>content = \<lparr>Services = [''myapp'' \<mapsto> myapp_env], Images = Map.empty\<rparr>,
           read_err = None, write_err = None\<rparr>,
     Join = filepath_Join, Open = (\<lambda>_. None), OpenFile = (\<lambda>_. None),
     ensureDirs = (\<lambda>_ _. None)\<rparr>"

definition newInst_ok :: "FileInstallerCfg \<Rightarrow> error option" where
  "newInst_ok cfg = None"


section \<open>The payload classifier (\<^verbatim>\<open>pkg/ftdetect\<close>)\<close>

type_synonym byte = "8 word"

datatype FileType = Unknown | Binary | DockerCompose | TypeScript | Script | Zstd

text \<open>
  The opened payload (\<^verbatim>\<open>f.f\<close>, possibly \<^verbatim>\<open>nil\<close>): its bytes, and whether seeking to
  its start and reading it fail.
\<close>

record osfile =
  bytes :: "byte list"
  seek_fails :: bool
  read_fails :: bool

record "file" =
  file_f :: "osfile option"
  goos :: string
  goarch :: string

text \<open>
  The parsers of other packages the classifier calls: \<^verbatim>\<open>elf.NewFile\<close> (its result's
  \<^verbatim>\<open>Machine\<close>), \<^verbatim>\<open>yaml.Unmarshal\<close> into the one-field struct \<^verbatim>\<open>servicesForm\<close>
  (the keys under \<^verbatim>\<open>services\<close>, if the document has that key), and esbuild's
  \<^verbatim>\<open>api.Transform\<close> (the number of errors it reports).
\<close>

datatype ElfMachine = EM_X86_64 | EM_386 | EM_ARM | EM_AARCH64 | EM_OTHER

record servicesForm =
  FormServices :: "string list option"

record Parsers =
  elf_NewFile :: "byte list \<Rightarrow> error + ElfMachine"
  yaml_Unmarshal :: "byte list \<Rightarrow> error + servicesForm"
  api_Transform :: "byte list \<Rightarrow> nat"

definition checkAndSeek0 :: "file \<Rightarrow> error option" where
  "checkAndSeek0 fl =
     (case file_f fl of
        None \<Rightarrow> Some (Err ''file is nil'')
      | Some osf \<Rightarrow>
          if seek_fails osf then Some (Err ''failed to seek to start of file'') else None)"

text \<open>\<^verbatim>\<open>io.ReadFull\<close> into a buffer of \<open>n\<close> bytes, from the start of the file: an error
  when the file is shorter.\<close>

definition ReadFull :: "file \<Rightarrow> nat \<Rightarrow> error + byte list" where
  "ReadFull fl n =
     (case file_f fl of
        None \<Rightarrow> Inl (Err ''invalid argument'')
      | Some osf \<Rightarrow>
          if read_fails osf then Inl (Err ''read error'')
          else if length (bytes osf) < n then Inl (Err ''unexpected EOF'')
          else Inr (take n (bytes osf)))"

definition ReadAll :: "file \<Rightarrow> error + byte list" where
  "ReadAll fl =
     (case file_f fl of
        None \<Rightarrow> Inl (Err ''invalid argument'')
      | Some osf \<Rightarrow> if read_fails osf then Inl (Err ''read error'') else Inr (bytes osf))"

text \<open>\<^verbatim>\<open>binary.LittleEndian.Uint32\<close> of a four-byte buffer.\<close>

definition Uint32 :: "byte list \<Rightarrow> 32 word" where
  "Uint32 b = ucast (b ! 0) OR push_bit 8 (ucast (b ! 1)) OR push_bit 16 (ucast (b ! 2))
     OR push_bit 24 (ucast (b ! 3))"

definition Magic32 :: "32 word" where "Magic32 = 0xfeedface"
definition Magic64 :: "32 word" where "Magic64 = 0xfeedfacf"
definition MagicFat :: "32 word" where "MagicFat = 0xcafebabe"

definition detectBinary :: "file \<Rightarrow> error + bool" where
  "detectBinary fl =
     (case checkAndSeek0 fl of
        Some err \<Rightarrow> Inl err
      | None \<Rightarrow>
          (case ReadFull fl 4 of
             Inl err \<Rightarrow> Inl (Err ''failed to read file'')
           | Inr magic \<Rightarrow>
               (let mn = Uint32 magic
                in if mn = 0x464C457F then
                     (if goos fl = ''darwin''
                      then Inl (Err ''non-darwin (ELF) binary on darwin system'')
                      else Inr True)
                   else if mn = Magic32 \<or> mn = Magic64 \<or> mn = MagicFat then
                     (if goos fl \<noteq> ''darwin''
                      then Inl (Err ''darwin binary (Mach-O) on non-darwin system'')
                      else Inr True)
                   else Inr False)))"

definition detectZstd :: "file \<Rightarrow> error + bool" where
  "detectZstd fl =
     (case checkAndSeek0 fl of
        Some err \<Rightarrow> Inl (Err ''failed to seek to start of file'')
      | None \<Rightarrow>
          (case ReadAll fl of
             Inl err \<Rightarrow> Inl (Err ''failed to read file'')
           | Inr bs \<Rightarrow>
               if length bs < 4 \<or> bs ! 0 \<noteq> 0x28 \<or> bs ! 1 \<noteq> 0xb5 \<or> bs ! 2 \<noteq> 0x2f
                  \<or> bs ! 3 \<noteq> 0xfd
               then Inr False
               else Inr True))"

definition detectArchitectureElf :: "Parsers \<Rightarrow> file \<Rightarrow> error + string" where
  "detectArchitectureElf ps fl =
     (case file_f fl of
        None \<Rightarrow> Inl (Err ''file is nil'')
      | Some osf \<Rightarrow>
          (case elf_NewFile ps (bytes osf) of
             Inl err \<Rightarrow> Inl (Err ''failed to parse ELF file'')
           | Inr EM_X86_64 \<Rightarrow> Inr ''x86_64''
           | Inr EM_386 \<Rightarrow> Inr ''x86''
           | Inr EM_ARM \<Rightarrow> Inr ''ARM''
           | Inr EM_AARCH64 \<Rightarrow> Inr ''ARM64''
           | Inr EM_OTHER \<Rightarrow> Inr ''unknown''))"

definition hostArchitecture :: "file \<Rightarrow> string" where
  "hostArchitecture fl =
     (if goarch fl = ''amd64'' then ''x86_64''
      else if goarch fl = ''386'' then ''x86''
      else if goarch fl = ''arm'' then ''ARM''
      else if goarch fl = ''arm64'' then ''ARM64''
      else ''unknown'')"

definition isSameArch :: "Parsers \<Rightarrow> file \<Rightarrow> error + bool" where
  "isSameArch ps fl =
     (case detectArchitectureElf ps fl of
        Inl err \<Rightarrow> Inl (Err ''failed to detect architecture'')
      | Inr binArch \<Rightarrow>
          (let hostArch = hostArchitecture fl
           in if binArch = hostArch then Inr True
              else Inl (Err ''binary architecture does not match host architecture'')))"

definition detectScript :: "file \<Rightarrow> error + bool" where
  "detectScript fl =
     (case checkAndSeek0 fl of
        Some err \<Rightarrow> Inl (Err ''failed to seek to start of file'')
      | None \<Rightarrow>
          (case ReadFull fl 2 of
             Inl err \<Rightarrow> Inl (Err ''failed to read file'')
           | Inr bs \<Rightarrow>
               if length bs < 2 \<or> bs ! 0 \<noteq> 0x23 \<or> bs ! 1 \<noteq> 0x21 then Inr False
               else Inr True))"

text \<open>\<^verbatim>\<open>detectDockerCompose\<close>: true as soon as the bytes unmarshal; the unmarshalled
  \<^verbatim>\<open>servicesForm\<close> is not looked at.\<close>

definition detectDockerCompose :: "Parsers \<Rightarrow> file \<Rightarrow> error + bool" where
  "detectDockerCompose ps fl =
     (case checkAndSeek0 fl of
        Some err \<Rightarrow> Inl (Err ''failed to seek to start of file'')
      | None \<Rightarrow>
          (case ReadAll fl of
             Inl err \<Rightarrow> Inl (Err ''failed to read file'')
           | Inr bs \<Rightarrow>
               (case yaml_Unmarshal ps bs of
                  Inl err \<Rightarrow> Inr False
                | Inr servicesForm \<Rightarrow> Inr True)))"

definition detectTypeScript :: "Parsers \<Rightarrow> file \<Rightarrow> error + bool" where
  "detectTypeScript ps fl =
     (case checkAndSeek0 fl of
        Some err \<Rightarrow> Inl (Err ''failed to seek to start of file'')
      | None \<Rightarrow>
          (case ReadAll fl of
             Inl err \<Rightarrow> Inl (Err ''failed to read file'')
           | Inr bs \<Rightarrow>
               if 0 < api_Transform ps bs then Inl (Err ''failed to parse TypeScript'')
               else Inr True))"

text \<open>\<^verbatim>\<open>detect\<close>: Go's \<^verbatim>\<open>(Unknown, err)\<close> is \<open>Inl err\<close>.\<close>

definition detect :: "Parsers \<Rightarrow> file \<Rightarrow> error + FileType" where
  "detect ps fl =
     (case detectBinary fl of
        Inl err \<Rightarrow> Inl (Err ''failed to detect binary'')
      | Inr True \<Rightarrow>
          (case isSameArch ps fl of
             Inl err \<Rightarrow> Inl (Err ''failed to check architecture'')
           | Inr same \<Rightarrow> if \<not> same then Inl (Err ''architecture mismatch'') else Inr Binary)
      | Inr False \<Rightarrow>
          (case detectZstd fl of
             Inl err \<Rightarrow> Inl (Err ''failed to detect zstd'')
           | Inr True \<Rightarrow> Inr Zstd
           | Inr False \<Rightarrow>
               (case detectScript fl of
                  Inl err \<Rightarrow> Inl (Err ''failed to detect script'')
                | Inr True \<Rightarrow> Inr Script
                | Inr False \<Rightarrow>
                    (case detectDockerCompose ps fl of
                       Inl err \<Rightarrow> Inl (Err ''failed to detect Docker Compose'')
                     | Inr True \<Rightarrow> Inr DockerCompose
                     | Inr False \<Rightarrow>
                         (case detectTypeScript ps fl of
                            Inl err \<Rightarrow> Inl (Err ''failed to detect TypeScript'')
                          | Inr True \<Rightarrow> Inr TypeScript
                          | Inr False \<Rightarrow> Inl (Err ''unable to detect file type''))))))"

text \<open>
  A concrete payload: the nine bytes of the YAML document \<^verbatim>\<open>foo: bar\<close> and a newline,
  which has no \<^verbatim>\<open>services\<close> key. The example parsers accept exactly this document as
  YAML and leave the \<^verbatim>\<open>Services\<close> field unset, as \<^verbatim>\<open>yaml.Unmarshal\<close> does for a mapping
  with other keys.
\<close>

definition foo_bar_yaml :: "byte list" where
  "foo_bar_yaml = [0x66, 0x6F, 0x6F, 0x3A, 0x20, 0x62, 0x61, 0x72, 0x0A]"

definition foo_bar_file :: "file" where
  "foo_bar_file = \<lparr>file_f = Some \<lparr>bytes = foo_bar_yaml, seek_fails = False, read_fails = False\<rparr>,
     goos = ''linux'', goarch = ''amd64''\<rparr>"

definition parsers_example :: Parsers where
  "parsers_example = \<lparr>elf_NewFile = (\<lambda>_. Inl (Err ''bad magic number'')),
     yaml_Unmarshal = (\<lambda>bs. if bs = foo_bar_yaml then Inr \<lparr>FormServices = None\<rparr>
                             else Inl (Err ''yaml: unmarshal errors'')),
     api_Transform = (\<lambda>_. 1)\<rparr>"


section \<open>The event bus (\<^verbatim>\<open>PublishEvent\<close> in \<^verbatim>\<open>catch.go\<close>)\<close>

datatype EventType =
    EventTypeUnknown | EventTypeHeartbeat | EventTypeServiceStatusChanged
  | EventTypeServiceDeleted | EventTypeServiceCreated | EventTypeServiceConfigChanged
  | EventTypeServiceConfigStaged

record Event =
  Time :: int
  ServiceName :: string
  Type :: EventType
  EventData :: "string option"

text \<open>
  A Go channel of events, as a send sees it: its capacity (0 for \<^verbatim>\<open>make(chan Event)\<close>,
  the only kind the listeners of this program create), the events waiting in its buffer,
  how many goroutines are blocked receiving from it, and the events handed to receivers.
  A send proceeds when a receiver is waiting or the buffer has room; otherwise the sender
  waits, which is the result \<open>None\<close>.
\<close>

record Chan =
  capacity :: nat
  buffer :: "Event list"
  receivers :: nat
  received :: "Event list"

definition chan_send :: "Chan \<Rightarrow> Event \<Rightarrow> Chan option" where
  "chan_send c e =
     (if 0 < receivers c then Some (c\<lparr>receivers := receivers c - 1, received := received c @ [e]\<rparr>)
      else if length (buffer c) < capacity c then Some (c\<lparr>buffer := buffer c @ [e]\<rparr>)
      else None)"

text \<open>\<^verbatim>\<open>EventListener\<close>: the channel and the filter, which may be \<^verbatim>\<open>nil\<close>.\<close>

record EventListener =
  ch :: Chan
  filter_fn :: "(Event \<Rightarrow> bool) option"

text \<open>
  How a call ends: it returns, or it is still waiting in a channel send. Both carry the
  listeners as the call has left them.
\<close>

datatype 'a outcome = Returned 'a | Blocked 'a

fun outcome_cons :: "'a \<Rightarrow> 'a list outcome \<Rightarrow> 'a list outcome" where
  "outcome_cons x (Returned xs) = Returned (x # xs)"
| "outcome_cons x (Blocked xs) = Blocked (x # xs)"

text \<open>The loop of \<^verbatim>\<open>PublishEvent\<close> over the listener set, in the order the iteration
  visits it.\<close>

fun publish_loop :: "Event \<Rightarrow> EventListener list \<Rightarrow> EventListener list outcome" where
  "publish_loop event [] = Returned []"
| "publish_loop event (el # els) =
     (case filter_fn el of
        Some flt \<Rightarrow>
          if \<not> flt event then outcome_cons el (publish_loop event els)
          else
            (case chan_send (ch el) event of
               None \<Rightarrow> Blocked (el # els)
             | Some c \<Rightarrow> outcome_cons (el\<lparr>ch := c\<rparr>) (publish_loop event els))
      | None \<Rightarrow>
          (case chan_send (ch el) event of
             None \<Rightarrow> Blocked (el # els)
           | Some c \<Rightarrow> outcome_cons (el\<lparr>ch := c\<rparr>) (publish_loop event els)))"

text \<open>\<^verbatim>\<open>PublishEvent\<close>: \<open>now\<close> is \<^verbatim>\<open>time.Now().UnixMilli()\<close>.\<close>

definition PublishEvent :: "int \<Rightarrow> EventListener list \<Rightarrow> Event \<Rightarrow> EventListener list outcome" where
  "PublishEvent now listeners event = publish_loop (event\<lparr>Time := now\<rparr>) listeners"

text \<open>A listener is sent an event when it has no filter or its filter accepts the
  event; \<open>deliver\<close> is that listener after the send.\<close>

definition selects :: "EventListener \<Rightarrow> Event \<Rightarrow> bool" where
  "selects el event = (case filter_fn el of None \<Rightarrow> True | Some flt \<Rightarrow> flt event)"

definition deliver :: "Event \<Rightarrow> EventListener \<Rightarrow> EventListener" where
  "deliver event el =
     (if selects el event
      then (case chan_send (ch el) event of None \<Rightarrow> el | Some c \<Rightarrow> el\<lparr>ch := c\<rparr>)
      else el)"

text \<open>Concrete inputs: an unbuffered channel nobody is receiving from, the same with a
  receiver waiting, and listeners on them.\<close>

definition idle_chan :: Chan where
  "idle_chan = \<lparr>capacity = 0, buffer = [], receivers = 0, received = []\<rparr>"

definition waiting_chan :: Chan where
  "waiting_chan = \<lparr>capacity = 0, buffer = [], receivers = 1, received = []\<rparr>"

definition slow_listener :: EventListener where
  "slow_listener = \<lparr>ch = idle_chan, filter_fn = None\<rparr>"

definition ready_listener :: EventListener where
  "ready_listener = \<lparr>ch = waiting_chan, filter_fn = None\<rparr>"

definition deaf_listener :: EventListener where
  "deaf_listener = \<lparr>ch = idle_chan, filter_fn = Some (\<lambda>_. False)\<rparr>"

definition deleted_event :: Event where
  "deleted_event = \<lparr>Time = 0, ServiceName = ''myapp'', Type = EventTypeServiceDeleted,
     EventData = None\<rparr>"


section \<open>Removing a service (\<^verbatim>\<open>RemoveService\<close> in \<^verbatim>\<open>catch.go\<close>)\<close>

text \<open>The states a runner reports (\<^verbatim>\<open>svc.Status\<close>).\<close>

datatype SvcStatus = StatusRunning | StatusStopped | StatusUnknown

text \<open>What deleting a device through the mesh-VPN API may answer: done, an error
  response with status 404, or another error.\<close>

datatype DeleteResult = Deleted | NotFound404 | DeleteFailed error

text \<open>
  The environment of a removal: what the two runners report for a service, whether
  \<^verbatim>\<open>filepath.Glob\<close> fails with an error other than not-exist, what \<^verbatim>\<open>os.RemoveAll\<close>
  returns for a path, whether the mesh-VPN API client can be built and what its
  \<^verbatim>\<open>DeleteDevice\<close> answers, and the clock.
\<close>

record RemoveEnv =
  DockerComposeStatus :: "string \<Rightarrow> error + (string \<times> SvcStatus) list"
  SystemdStatus :: "string \<Rightarrow> error + SvcStatus"
  Glob_err :: "error option"
  RemoveAll :: "string \<Rightarrow> error option"
  tsClient :: "error option"
  DeleteDevice :: "string \<Rightarrow> DeleteResult"
  unixMilli :: int

text \<open>
  The server: its host, the entries of each service's root directory (by base name),
  and the registered event listeners.
\<close>

record Server =
  host :: Host
  entries :: "string \<Rightarrow> string list"
  eventListeners :: "EventListener list"

definition errNoServiceConfigured :: error where
  "errNoServiceConfigured = Err ''no service configured''"

definition svcType :: "Store \<Rightarrow> string \<Rightarrow> error + ServiceType" where
  "svcType db sn = (case serviceView db sn of Inl err \<Rightarrow> Inl err | Inr sv \<Rightarrow> Inr (SvcType sv))"

text \<open>\<^verbatim>\<open>IsServiceRunning\<close>: a compose service runs when one of its containers does.\<close>

definition IsServiceRunning :: "RemoveEnv \<Rightarrow> Server \<Rightarrow> string \<Rightarrow> error + bool" where
  "IsServiceRunning env s sn =
     (case svcType (DB (host s)) sn of
        Inl err \<Rightarrow>
          if err = errNoServiceConfigured then Inr False
          else Inl (Err ''failed to get service type'')
      | Inr ServiceTypeDockerCompose \<Rightarrow>
          (case DockerComposeStatus env sn of
             Inl err \<Rightarrow> Inl err
           | Inr sts \<Rightarrow> Inr (StatusRunning \<in> set (map snd sts)))
      | Inr ServiceTypeSystemd \<Rightarrow>
          (case SystemdStatus env sn of
             Inl err \<Rightarrow> Inl err
           | Inr st \<Rightarrow> Inr (st = StatusRunning))
      | Inr (ServiceTypeOther _) \<Rightarrow> Inl (Err ''unknown service type''))"

text \<open>
  The loop over the entries of the service root: \<open>data\<close> is skipped, every other entry
  is removed, and the first removal that fails ends the loop. The result holds the
  entries left in the directory.
\<close>

fun removeDirs :: "(string \<Rightarrow> error option) \<Rightarrow> string list \<Rightarrow> error option \<times> string list" where
  "removeDirs rm [] = (None, [])"
| "removeDirs rm (dir # dirs) =
     (if dir = ''data'' then (case removeDirs rm dirs of (err, left) \<Rightarrow> (err, dir # left))
      else
        (case rm dir of
           Some err \<Rightarrow> (Some (Err ''failed to remove service directory''), dir # dirs)
         | None \<Rightarrow> removeDirs rm dirs))"

text \<open>The block of \<^verbatim>\<open>RemoveService\<close> that deletes the service's mesh-VPN device, when
  the service has a network spec with a stable node id.\<close>

definition deleteDevice :: "RemoveEnv \<Rightarrow> Server \<Rightarrow> string \<Rightarrow> error option" where
  "deleteDevice env s sn =
     (case serviceView (DB (host s)) sn of
        Inl err \<Rightarrow> None
      | Inr sv \<Rightarrow>
          (case TSNet sv of
             None \<Rightarrow> None
           | Some ts \<Rightarrow>
               if StableID ts = [] then None
               else
                 (case tsClient env of
                    Some err \<Rightarrow> Some (Err ''failed to get tailscale client'')
                  | None \<Rightarrow>
                      (case DeleteDevice env (StableID ts) of
                         Deleted \<Rightarrow> None
                       | NotFound404 \<Rightarrow> None
                       | DeleteFailed err \<Rightarrow> Some (Err ''failed to delete tailscale device'')))))"

fun outcome_map :: "('a \<Rightarrow> 'b) \<Rightarrow> 'a outcome \<Rightarrow> 'b outcome" where
  "outcome_map g (Returned x) = Returned (g x)"
| "outcome_map g (Blocked x) = Blocked (g x)"

definition RemoveService :: "RemoveEnv \<Rightarrow> Server \<Rightarrow> string \<Rightarrow> (error option \<times> Server) outcome" where
  "RemoveService env s sn =
     (if IsServiceRunning env s sn = Inr True then Returned (Some (Err ''service is not stopped''), s)
      else
        (case Glob_err env of
           Some err \<Rightarrow> Returned (Some (Err ''failed to list service directories''), s)
         | None \<Rightarrow>
             (case removeDirs (\<lambda>dir. RemoveAll env (Join (host s) [ServicesRoot (host s), sn, dir]))
                     (entries s sn) of
                (Some err, left) \<Rightarrow> Returned (Some err, s\<lparr>entries := (entries s)(sn := left)\<rparr>)
              | (None, left) \<Rightarrow>
                  (let s1 = s\<lparr>entries := (entries s)(sn := left)\<rparr>
                   in case deleteDevice env s1 sn of
                        Some err \<Rightarrow> Returned (Some err, s1)
                      | None \<Rightarrow>
                          (case MutateData (DB (host s1))
                                  (\<lambda>d. Inr (d\<lparr>Services := (Services d)(sn := None)\<rparr>)) of
                             Inl err \<Rightarrow>
                               Returned (Some (Err ''failed to remove service from db''), s1)
                           | Inr (db', _) \<Rightarrow>
                               (let s2 = s1\<lparr>host := (host s1)\<lparr>DB := db'\<rparr>\<rparr>
                                in outcome_map (\<lambda>ls. (None, s2\<lparr>eventListeners := ls\<rparr>))
                                     (PublishEvent (unixMilli env) (eventListeners s2)
                                        \<lparr>Time = 0, ServiceName = sn,
                                         Type = EventTypeServiceDeleted,
                                         EventData = None\<rparr>)))))))"

text \<open>Concrete inputs: the server of \<^verbatim>\<open>myapp\<close> with four directories and one listener
  waiting for an event, and an environment in which every operation succeeds.\<close>

definition server_example :: Server where
  "server_example = \<lparr>host = host_example,
     entries = (\<lambda>sn. if sn = ''myapp'' then [''bin'', ''data'', ''env'', ''run''] else []),
     eventListeners = [ready_listener]\<rparr>"

definition env_stopped :: RemoveEnv where
  "env_stopped = \<lparr>DockerComposeStatus = (\<lambda>_. Inr []), SystemdStatus = (\<lambda>_. Inr StatusStopped),
     Glob_err = None, RemoveAll = (\<lambda>_. None), tsClient = None,
     DeleteDevice = (\<lambda>_. Deleted), unixMilli = 1000\<rparr>"

definition env_running :: RemoveEnv where
  "env_running = env_stopped\<lparr>SystemdStatus := (\<lambda>_. Inr StatusRunning)\<rparr>"


section \<open>The registry's manifest writes (\<^verbatim>\<open>SetManifest\<close>)\<close>

text \<open>\<^verbatim>\<open>registry.Manifest\<close>: the content type and the bytes of a pushed manifest.\<close>

record Manifest =
  ManifestContentType :: string
  Blob :: "byte list"

text \<open>
  The registry: the server's host (with the store), the manifest files under
  \<^verbatim>\<open>manifests/sha256\<close> by name, and whether writing such a file fails.
\<close>

record Registry =
  reg_host :: Host
  manifests :: "string \<rightharpoonup> byte list"
  manifest_write_err :: "error option"

text \<open>
  What \<^verbatim>\<open>SetManifest\<close> does to the installer it creates, in order. The environment says
  what the hex SHA-256 of a blob is, whether \<^verbatim>\<open>NewFileInstaller\<close> fails for a
  configuration, what \<^verbatim>\<open>os.ReadFile\<close> returns for a path, and whether copying into
  the installer fails.
\<close>

datatype InstallStep =
    NewFileInstaller FileInstallerCfg | CopyInto string | Fail | Close

record RegistryEnv =
  sha256_hex :: "byte list \<Rightarrow> string"
  newInstaller :: "FileInstallerCfg \<Rightarrow> error option"
  ReadFile :: "string \<Rightarrow> error + string"
  copy_err :: "error option"

definition InternalRegistryHost :: string where
  "InternalRegistryHost = ''catchit.dev''"

text \<open>\<^verbatim>\<open>fmt.Sprintf(composeTemplate, svcName, image, dataDir)\<close>.\<close>

definition composeTemplate :: "string \<Rightarrow> string \<Rightarrow> string \<Rightarrow> string" where
  "composeTemplate svcName img dataDir =
     ''services:'' @ [CHR 0x0A] @
     ''  '' @ svcName @ '':'' @ [CHR 0x0A] @
     ''    image: '' @ img @ [CHR 0x0A] @
     ''    restart: unless-stopped'' @ [CHR 0x0A] @
     ''    volumes:'' @ [CHR 0x0A] @
     ''      - '' @ dataDir @ '':/data'' @ [CHR 0x0A]"

definition storeManifest ::
  "RegistryEnv \<Rightarrow> Registry \<Rightarrow> byte list \<Rightarrow> (error + string) \<times> Registry" where
  "storeManifest env cr b =
     (let sha = sha256_hex env b
      in case manifest_write_err cr of
           Some err \<Rightarrow> (Inl (Err ''storeManifest''), cr)
         | None \<Rightarrow> (Inr sha, cr\<lparr>manifests := (manifests cr)(sha \<mapsto> b)\<rparr>))"

text \<open>
  The second half of \<^verbatim>\<open>SetManifest\<close>, after the store is written: the installer is
  created, fed the compose file of the previous generation or the template, and closed
  (the deferred \<^verbatim>\<open>Close\<close> runs last on every path once the installer exists).
\<close>

definition installCompose ::
  "RegistryEnv \<Rightarrow> Host \<Rightarrow> Data \<Rightarrow> string \<Rightarrow> string \<Rightarrow> bool \<Rightarrow> InstallStep list" where
  "installCompose env h d repo svcName shouldInstall =
     (let img = InternalRegistryHost @ ''/'' @ repo;
          cfg = \<lparr>EnvFile = False, CfgServiceName = svcName, CfgUser = [],
                 StageOnly = (\<not> shouldInstall)\<rparr>
      in case newInstaller env cfg of
           Some err \<Rightarrow> [NewFileInstaller cfg]
         | None \<Rightarrow>
             (let prev =
                (case Services d svcName of
                   None \<Rightarrow> Inr []
                 | Some svc \<Rightarrow>
                     if Generation svc > 0 then
                       (let prevGen = Generation svc - 1
                        in case Gen (Artifacts svc) ArtifactDockerComposeFile prevGen of
                             (prevFile, ok) \<Rightarrow> if ok then ReadFile env prevFile else Inr [])
                     else Inr [])
              in case prev of
                   Inl err \<Rightarrow> [NewFileInstaller cfg, Fail, Close]
                 | Inr prevContent \<Rightarrow>
                     (let composeFile =
                        (if prevContent = []
                         then composeTemplate svcName img (serviceDataDir h svcName)
                         else prevContent)
                      in case copy_err env of
                           Some err \<Rightarrow> [NewFileInstaller cfg, Fail, Close]
                         | None \<Rightarrow> [NewFileInstaller cfg, CopyInto composeFile, Close, Close])))"

text \<open>The references a tag is stored under, and whether the write installs.\<close>

definition tagReferences :: "string \<Rightarrow> string list \<times> bool" where
  "tagReferences tag =
     (if tag = ''run'' then ([''run'', ''staged''], True)
      else if tag = ''latest'' then ([''staged''], False)
      else ([tag], False))"

definition SetManifest ::
  "RegistryEnv \<Rightarrow> Registry \<Rightarrow> string \<Rightarrow> string \<Rightarrow> Manifest \<Rightarrow> Registry \<times> InstallStep list" where
  "SetManifest env cr repo tag manifest =
     (if CountByte repo (CHR ''/'') \<noteq> 1 then (cr, [])
      else
        (case Cut repo ''/'' of
           (svc, container, ok) \<Rightarrow>
             if \<not> ok then (cr, [])
             else if Contains container ''/'' then (cr, [])
             else
               (let svcName = svc
                in case tagReferences tag of
                     (references, shouldInstall) \<Rightarrow>
                       (case getDB (DB (reg_host cr)) of
                          Inl err \<Rightarrow> (cr, [])
                        | Inr d \<Rightarrow>
                            (let ir = (case Images d repo of
                                         Some ir \<Rightarrow> ir
                                       | None \<Rightarrow> \<lparr>Refs = Map.empty\<rparr>)
                             in case storeManifest env cr (Blob manifest) of
                                  (Inl err, cr1) \<Rightarrow> (cr1, [])
                                | (Inr mh, cr1) \<Rightarrow>
                                    (let ir' = foldl (\<lambda>ir reference.
                                                 ir\<lparr>Refs := (Refs ir)(reference \<mapsto>
                                                   \<lparr>ContentType = ManifestContentType manifest,
                                                    BlobHash = mh\<rparr>)\<rparr>) ir references;
                                         d' = d\<lparr>Images := (Images d)(repo \<mapsto> ir')\<rparr>
                                     in case DB_Set (DB (reg_host cr1)) d' of
                                          (Some err, _) \<Rightarrow> (cr1, [])
                                        | (None, db') \<Rightarrow>
                                            (cr1\<lparr>reg_host := (reg_host cr1)\<lparr>DB := db'\<rparr>\<rparr>,
                                             installCompose env (reg_host cr1) d' repo svcName
                                               shouldInstall)))))))"

text \<open>The references of a repository in the store, none when the repository is not
  there.\<close>

definition refs_of :: "Registry \<Rightarrow> string \<Rightarrow> (string \<rightharpoonup> ImageManifest)" where
  "refs_of cr repo =
     (case Images (content (DB (reg_host cr))) repo of None \<Rightarrow> Map.empty | Some ir \<Rightarrow> Refs ir)"

text \<open>Concrete inputs: the registry of the example host, with nothing stored, a
  manifest of two bytes, and an environment in which every operation succeeds.\<close>

definition registry_example :: Registry where
  "registry_example = \<lparr>reg_host = host_example, manifests = Map.empty,
     manifest_write_err = None\<rparr>"

definition manifest_example :: Manifest where
  "manifest_example = \<lparr>ManifestContentType = ''application/vnd.oci.image.manifest.v1+json'',
     Blob = [0x7B, 0x7D]\<rparr>"

definition manifest_ref_example :: ImageManifest where
  "manifest_ref_example = \<lparr>ContentType = ''application/vnd.oci.image.manifest.v1+json'',
     BlobHash = ''44136fa3''\<rparr>"

definition registry_env_example :: RegistryEnv where
  "registry_env_example = \<lparr>sha256_hex = (\<lambda>_. ''44136fa3''), newInstaller = (\<lambda>_. None),
     ReadFile = (\<lambda>_. Inl (Err ''no such file'')), copy_err = None\<rparr>"


text \<open>A second registry, whose service \<^verbatim>\<open>myapp\<close> is at generation 2 and has a
  compose file for generation 1, which reads back as one line.\<close>

definition myapp_compose :: Service where
  "myapp_compose = \<lparr>Name = ''myapp'', SvcType = ServiceTypeDockerCompose, Generation = 2,
     LatestGeneration = 2,
     Artifacts = \<lparr>Latest = (\<lambda>_. ([], False)),
                  Gen = (\<lambda>n g. if n = ArtifactDockerComposeFile \<and> g = 1
                                then (''/srv/myapp/bin/compose-1.yml'', True)
                                else ([], False))\<rparr>,
     TSNet = None\<rparr>"

definition registry_compose_example :: Registry where
  "registry_compose_example = \<lparr>reg_host = host_example\<lparr>DB :=
       \<lparr>content = \<lparr>Services = [''myapp'' \<mapsto> myapp_compose], Images = Map.empty\<rparr>,
        read_err = None, write_err = None\<rparr>\<rparr>,
     manifests = Map.empty, manifest_write_err = None\<rparr>"

definition registry_env_compose :: RegistryEnv where
  "registry_env_compose = \<lparr>sha256_hex = (\<lambda>_. ''44136fa3''), newInstaller = (\<lambda>_. None),
     ReadFile = (\<lambda>path. if path = ''/srv/myapp/bin/compose-1.yml''
                          then Inr ''services: {}''
                          else Inl (Err ''no such file'')),
     copy_err = None\<rparr>"


chapter \<open>Properties\<close>

section \<open>Status aggregation\<close>

lemma statusToState_stopping:
  "State_Stopping \<in> status ` set (components st) \<Longrightarrow> statusToState st = State_Stopping"
  by (simp add: statusToState_def Let_def)

lemma statusToState_starting:
  "State_Stopping \<notin> status ` set (components st) \<Longrightarrow> State_Starting \<in> status ` set (components st)
   \<Longrightarrow> statusToState st = State_Starting"
  by (simp add: statusToState_def Let_def)

lemma remdups_single:
  assumes "xs \<noteq> []" and "\<forall>x\<in>set xs. x = s"
  shows "remdups xs = [s]"
  using assms
proof (induction xs)
  case Nil
  then show ?case by simp
next
  case (Cons a xs)
  show ?case
  proof (cases "xs = []")
    case True
    with Cons.prems show ?thesis by simp
  next
    case False
    with Cons have "remdups xs = [s]" by simp
    moreover from Cons.prems False have "a = s" and "a \<in> set xs"
      by (auto simp: neq_Nil_conv)
    ultimately show ?thesis by simp
  qed
qed

lemma remdups_length_one:
  assumes "length (remdups xs) = 1"
  shows "\<forall>x\<in>set xs. x = hd xs"
proof -
  from assms obtain s where s: "remdups xs = [s]"
    by (cases "remdups xs") auto
  then have "set xs = {s}"
    by (metis set_remdups list.simps(15) empty_set)
  moreover from this have "xs \<noteq> []" by auto
  ultimately show ?thesis
    by (cases xs) auto
qed

text \<open>
  C8. For every non-empty list of components whose states are values of
  \<^verbatim>\<open>ComponentStatus\<close>, the aggregator returns \<^verbatim>\<open>stopping\<close> if any component is
  stopping; else \<^verbatim>\<open>starting\<close> if any is starting; else, if all components share a
  single state, that state; else \<^verbatim>\<open>partial\<close>.
\<close>

theorem statusToState_aggregates:
  assumes nonempty: "components st \<noteq> []"
      and typed: "\<forall>c\<in>set (components st). status c \<in> set ComponentStatus"
  shows "statusToState st =
           (if \<exists>c\<in>set (components st). status c = State_Stopping then State_Stopping
            else if \<exists>c\<in>set (components st). status c = State_Starting then State_Starting
            else if \<forall>c\<in>set (components st). status c = status (hd (components st))
              then status (hd (components st))
            else State_Partial)"
proof -
  let ?cs = "components st"
  let ?states = "map status ?cs"
  consider (stopping) "\<exists>c\<in>set ?cs. status c = State_Stopping"
    | (starting) "\<not> (\<exists>c\<in>set ?cs. status c = State_Stopping)" "\<exists>c\<in>set ?cs. status c = State_Starting"
    | (rest) "\<not> (\<exists>c\<in>set ?cs. status c = State_Stopping)" "\<not> (\<exists>c\<in>set ?cs. status c = State_Starting)"
    by blast
  then show ?thesis
  proof cases
    case stopping
    then have "State_Stopping \<in> status ` set ?cs" by force
    with stopping show ?thesis by (simp add: statusToState_stopping)
  next
    case starting
    then have "State_Stopping \<notin> status ` set ?cs" "State_Starting \<in> status ` set ?cs" by force+
    with starting show ?thesis by (simp add: statusToState_starting)
  next
    case rest
    from nonempty obtain c0 cs' where cs: "?cs = c0 # cs'" by (cases ?cs) auto
    have no_stop: "State_Stopping \<notin> set ?states" and no_start: "State_Starting \<notin> set ?states"
      using rest by auto
    have c0_typed: "status c0 \<in> set ComponentStatus" using typed cs by simp
    have c0_cases: "status c0 = State_Running \<or> status c0 = State_Stopped \<or> status c0 = State_Unknown"
      using c0_typed rest cs
      by (auto simp: ComponentStatus_def State_Running_def State_Stopped_def State_Unknown_def
          State_Starting_def State_Stopping_def)
    show ?thesis
    proof (cases "\<forall>c\<in>set ?cs. status c = status (hd ?cs)")
      case True
      then have all_c0: "\<forall>x\<in>set ?states. x = status c0" using cs by auto
      have "?states \<noteq> []" using cs by simp
      then have "remdups ?states = [status c0]" using all_c0 by (rule remdups_single)
      then have single: "statusToState st =
          (if status c0 = State_Running then State_Running
           else if status c0 = State_Stopped then State_Stopped else State_Unknown)"
        using no_stop no_start cs by (simp add: statusToState_def Let_def)
      have "statusToState st = status c0"
        using c0_cases
      proof (elim disjE)
        assume "status c0 = State_Running"
        with single show ?thesis by simp
      next
        assume "status c0 = State_Stopped"
        with single show ?thesis by simp
      next
        assume u: "status c0 = State_Unknown"
        have "State_Unknown \<noteq> State_Running" "State_Unknown \<noteq> State_Stopped"
          by (simp_all add: State_Unknown_def State_Running_def State_Stopped_def)
        with single u show ?thesis by simp
      qed
      moreover have "hd ?cs = c0" using cs by simp
      ultimately show ?thesis using rest True by simp
    next
      case False
      have "length (remdups ?states) \<noteq> 1"
      proof
        assume "length (remdups ?states) = 1"
        then have "\<forall>x\<in>set ?states. x = hd ?states" by (rule remdups_length_one)
        then have "\<forall>c\<in>set ?cs. status c = status (hd ?cs)" using cs by auto
        with False show False by contradiction
      qed
      then have "statusToState st = State_Partial"
        using no_stop no_start by (simp add: statusToState_def Let_def)
      then show ?thesis using rest False by auto
    qed
  qed
qed

theorem statusToState_aggregates_witness:
  "statusToState (status_example [''running'', ''stopped'']) = ''partial''
   \<and> statusToState (status_example [''running'', ''stopping'', ''starting'']) = ''stopping''
   \<and> statusToState (status_example [''starting'', ''stopped'']) = ''starting''
   \<and> statusToState (status_example [''running'', ''running'']) = ''running''
   \<and> statusToState (status_example [''unknown'']) = ''unknown''"
  using statusToState_aggregates [of "status_example [''running'', ''stopped'']"]
    statusToState_aggregates [of "status_example [''running'', ''stopping'', ''starting'']"]
    statusToState_aggregates [of "status_example [''starting'', ''stopped'']"]
    statusToState_aggregates [of "status_example [''running'', ''running'']"]
    statusToState_aggregates [of "status_example [''unknown'']"]
  by (simp add: status_example_def ComponentStatus_def State_Stopping_def State_Starting_def
      State_Partial_def)


section \<open>The authorizer\<close>

text \<open>
  C2, as stated, fails: with an untagged local node a tagged peer is not allowed. Here
  the local node is untagged, the peer carries a tag, and the caller is rejected.
\<close>

theorem verifyCaller_tagged_peer_counterexample:
  "\<not> PeerStatus_IsTagged (Self untagged_self) \<and> Node_IsTagged (WhoNode tagged_peer)
   \<and> verifyCaller lc_tagged_peer ''100.64.0.9:41000'' = Some errUnauthorized"
  by (simp add: verifyCaller_def lc_tagged_peer_def untagged_self_def tagged_peer_def
      PeerStatus_IsTagged_def Node_IsTagged_def)

text \<open>
  C2, amended. For every caller-authorization check where both lookups answer and the
  local node is untagged, the caller is allowed if and only if the peer is untagged and the
  peer's user-id equals the local node's user-id; every tagged peer is rejected as
  unauthorized.
\<close>

theorem verifyCaller_untagged_local:
  assumes "StatusWithoutPeers lc = Inr st"
      and "WhoIs lc remoteAddr = Inr who"
      and "\<not> PeerStatus_IsTagged (Self st)"
  shows "(verifyCaller lc remoteAddr = None
            \<longleftrightarrow> \<not> Node_IsTagged (WhoNode who) \<and> User (WhoNode who) = UserID (Self st))
         \<and> (Node_IsTagged (WhoNode who) \<longrightarrow> verifyCaller lc remoteAddr = Some errUnauthorized)"
  using assms by (auto simp: verifyCaller_def)

theorem verifyCaller_untagged_local_witness:
  "verifyCaller lc_same_user ''100.64.0.9:41000'' = None
   \<and> verifyCaller lc_other_user ''100.64.0.9:41000'' \<noteq> None
   \<and> verifyCaller lc_tagged_peer ''100.64.0.9:41000'' = Some errUnauthorized"
proof -
  have f: "StatusWithoutPeers lc_tagged_peer = Inr untagged_self"
    and g: "WhoIs lc_tagged_peer ''100.64.0.9:41000'' = Inr tagged_peer"
    by (simp_all add: lc_tagged_peer_def)
  have a: "StatusWithoutPeers lc_same_user = Inr untagged_self"
    and b: "WhoIs lc_same_user ''100.64.0.9:41000'' = Inr same_user_peer"
    and c: "StatusWithoutPeers lc_other_user = Inr untagged_self"
    and d: "WhoIs lc_other_user ''100.64.0.9:41000'' = Inr other_user_peer"
    and e: "\<not> PeerStatus_IsTagged (Self untagged_self)"
    by (simp_all add: lc_same_user_def lc_other_user_def untagged_self_def
        PeerStatus_IsTagged_def)
  show ?thesis
    using verifyCaller_untagged_local [OF a b e] verifyCaller_untagged_local [OF c d e]
      verifyCaller_untagged_local [OF f g e]
    by (simp add: same_user_peer_def other_user_peer_def tagged_peer_def untagged_self_def
        Node_IsTagged_def)
qed


section \<open>The registry's HTTP handler\<close>

text \<open>
  C5. For every HTTP request to the container registry whose remote address parses: if
  the caller is non-loopback and fails the authorizer check, the response status is 401,
  whatever the method; if the caller is loopback and the method is anything other than
  GET, HEAD or OPTIONS, the response status is 405 and the request is not forwarded to the
  registry.
\<close>

theorem ServeHTTP_authorization:
  assumes "ParseAddrPort (RemoteAddr r) = Inr ap"
  shows "(\<not> IsLoopback ap \<and> verifyCaller lc (RemoteAddr r) = Some err
            \<longrightarrow> ServeHTTP ParseAddrPort IsLoopback lc r = HttpError 401 (errorText err))
         \<and> (IsLoopback ap \<and> Method r \<notin> {''GET'', ''HEAD'', ''OPTIONS''}
            \<longrightarrow> ServeHTTP ParseAddrPort IsLoopback lc r = HttpError 405 ''Registry is read-only''
                \<and> ServeHTTP ParseAddrPort IsLoopback lc r \<noteq> Forwarded)"
  using assms
  by (simp add: ServeHTTP_def StatusUnauthorized_def StatusMethodNotAllowed_def)

theorem ServeHTTP_authorization_witness:
  "ServeHTTP parse_example loopback_example lc_other_user
      \<lparr>RemoteAddr = ''100.64.0.9:41000'', Method = ''GET''\<rparr>
     = HttpError 401 ''unauthorized connection''
   \<and> ServeHTTP parse_example loopback_example lc_other_user
      \<lparr>RemoteAddr = ''127.0.0.1:41000'', Method = ''PUT''\<rparr>
     = HttpError 405 ''Registry is read-only''"
proof -
  have p1: "parse_example (RemoteAddr \<lparr>RemoteAddr = ''100.64.0.9:41000'', Method = ''GET''\<rparr>)
              = Inr ''100.64.0.9:41000''"
    and p2: "parse_example (RemoteAddr \<lparr>RemoteAddr = ''127.0.0.1:41000'', Method = ''PUT''\<rparr>)
              = Inr ''127.0.0.1:41000''"
    by (simp_all add: parse_example_def)
  have v: "verifyCaller lc_other_user ''100.64.0.9:41000'' = Some errUnauthorized"
    by (simp add: verifyCaller_def lc_other_user_def untagged_self_def other_user_peer_def
        PeerStatus_IsTagged_def Node_IsTagged_def)
  have l1: "\<not> loopback_example ''100.64.0.9:41000''" and l2: "loopback_example ''127.0.0.1:41000''"
    by (simp_all add: loopback_example_def HasPrefix_def)
  show ?thesis
    using ServeHTTP_authorization [where ParseAddrPort = parse_example
        and r = "\<lparr>RemoteAddr = ''100.64.0.9:41000'', Method = ''GET''\<rparr>"
        and ap = "''100.64.0.9:41000''" and IsLoopback = loopback_example
        and lc = lc_other_user and err = errUnauthorized]
      ServeHTTP_authorization [where ParseAddrPort = parse_example
        and r = "\<lparr>RemoteAddr = ''127.0.0.1:41000'', Method = ''PUT''\<rparr>"
        and ap = "''127.0.0.1:41000''" and IsLoopback = loopback_example
        and lc = lc_other_user and err = errUnauthorized]
      p1 p2 v l1 l2
    by (simp add: errUnauthorized_def)
qed


section \<open>Rollback\<close>

lemma int64_id: "- (2 ^ 63) \<le> x \<Longrightarrow> x < 2 ^ 63 \<Longrightarrow> int64 x = x"
  by (simp add: int64_def)

lemma rollbackFn_in_range:
  assumes "0 \<le> Generation s" "Generation s < 2 ^ 63"
      and "0 \<le> LatestGeneration s" "LatestGeneration s < 2 ^ 63"
      and "0 \<le> N" "N < 2 ^ 63"
  shows "rollbackFn N d s =
           (if 2 \<le> Generation s \<and> LatestGeneration s - N < Generation s
            then Inr (s\<lparr>Generation := Generation s - 1\<rparr>)
            else if Generation s = 0 then Inl (Err ''no generation to rollback'')
            else if Generation s - 1 < LatestGeneration s - N then Inl (Err ''generation is too old'')
            else Inl (Err ''generation is the oldest, cannot rollback''))"
proof -
  have a: "int64 (LatestGeneration s - N) = LatestGeneration s - N"
    using assms by (intro int64_id) auto
  have b: "int64 (Generation s - 1) = Generation s - 1"
    using assms by (intro int64_id) auto
  show ?thesis
    using assms(1) unfolding rollbackFn_def Let_def a b by auto
qed

text \<open>
  C1, as stated, fails in both directions. With a retention window of 10, a service at
  generation 11 of 20 is rolled back to generation 10 although 11 > 20 - 10 + 1 is false;
  a service at generation 1 of 1 is refused although 1 > 1 - 10 + 1 is true.
\<close>

theorem rollback_bound_counterexample:
  "\<not> (11 > 20 - 10 + (1::int))
   \<and> fst (rollbackCmdFunc 10 installers_ok (myapp_store 11 20) ''myapp'') = None
   \<and> generation_of (snd (rollbackCmdFunc 10 installers_ok (myapp_store 11 20) ''myapp'')) ''myapp''
       = Some 10
   \<and> (1 > 1 - 10 + (1::int))
   \<and> fst (rollbackCmdFunc 10 installers_ok (myapp_store 1 1) ''myapp'')
       = Some (Err ''failed to rollback service'')
   \<and> generation_of (snd (rollbackCmdFunc 10 installers_ok (myapp_store 1 1) ''myapp'')) ''myapp''
       = Some 1"
  by (simp add: rollbackCmdFunc_def MutateService_def DB_Get_def DB_Set_def rollbackFn_def
      myapp_store_def myapp_def installers_ok_def generation_of_def int64_def Let_def)

text \<open>
  C1, amended. For every service in a readable and writable store, with current
  generation g and latest generation L (both from 0 up to the largest machine integer) and
  retention window N: the rollback command decrements the current generation by one if
  and only if g \<ge> 2 and g > L - N, and then returns what reinstalling generation g - 1
  returns; in every other case it returns an error and leaves the store, and so the
  generation, unchanged.
\<close>

theorem rollback_bound:
  assumes svc: "Services (content db) sn = Some s"
      and io: "read_err db = None" "write_err db = None"
      and g: "0 \<le> Generation s" "Generation s < 2 ^ 63"
      and l: "0 \<le> LatestGeneration s" "LatestGeneration s < 2 ^ 63"
      and n: "0 \<le> N" "N < 2 ^ 63"
  shows "(2 \<le> Generation s \<and> LatestGeneration s - N < Generation s \<longrightarrow>
            generation_of (snd (rollbackCmdFunc N inst db sn)) sn = Some (Generation s - 1)
          \<and> fst (rollbackCmdFunc N inst db sn) =
              (case NewInstaller inst sn of
                 Some err \<Rightarrow> Some (Err ''failed to create installer'')
               | None \<Rightarrow> InstallGen inst sn (Generation s - 1)))
       \<and> (\<not> (2 \<le> Generation s \<and> LatestGeneration s - N < Generation s) \<longrightarrow>
            rollbackCmdFunc N inst db sn = (Some (Err ''failed to rollback service''), db))"
proof -
  have fn: "rollbackFn N (content db) s =
           (if 2 \<le> Generation s \<and> LatestGeneration s - N < Generation s
            then Inr (s\<lparr>Generation := Generation s - 1\<rparr>)
            else if Generation s = 0 then Inl (Err ''no generation to rollback'')
            else if Generation s - 1 < LatestGeneration s - N then Inl (Err ''generation is too old'')
            else Inl (Err ''generation is the oldest, cannot rollback''))"
    using g l n by (rule rollbackFn_in_range)
  show ?thesis
    using svc io
    by (auto simp: rollbackCmdFunc_def MutateService_def DB_Get_def DB_Set_def fn
        generation_of_def Let_def split: option.splits)
qed

theorem rollback_bound_witness:
  "generation_of (snd (rollbackCmdFunc 10 installers_ok (myapp_store 3 3) ''myapp'')) ''myapp''
     = Some 2
   \<and> fst (rollbackCmdFunc 10 installers_ok (myapp_store 3 3) ''myapp'') = None
   \<and> rollbackCmdFunc 10 installers_ok (myapp_store 1 3) ''myapp''
     = (Some (Err ''failed to rollback service''), myapp_store 1 3)"
proof -
  have s3: "Services (content (myapp_store 3 3)) ''myapp'' = Some (myapp 3 3)"
    and s1: "Services (content (myapp_store 1 3)) ''myapp'' = Some (myapp 1 3)"
    and io: "read_err (myapp_store 3 3) = None" "write_err (myapp_store 3 3) = None"
      "read_err (myapp_store 1 3) = None" "write_err (myapp_store 1 3) = None"
    by (simp_all add: myapp_store_def)
  have r3: "0 \<le> Generation (myapp 3 3)" "Generation (myapp 3 3) < 2 ^ 63"
      "0 \<le> LatestGeneration (myapp 3 3)" "LatestGeneration (myapp 3 3) < 2 ^ 63"
    and r1: "0 \<le> Generation (myapp 1 3)" "Generation (myapp 1 3) < 2 ^ 63"
      "0 \<le> LatestGeneration (myapp 1 3)" "LatestGeneration (myapp 1 3) < 2 ^ 63"
    and n: "(0::int) \<le> 10" "(10::int) < 2 ^ 63"
    by (simp_all add: myapp_def)
  show ?thesis
    using rollback_bound [OF s3 io(1,2) r3 n, of installers_ok]
      rollback_bound [OF s1 io(3,4) r1 n, of installers_ok]
    by (simp add: myapp_def installers_ok_def)
qed

section \<open>The SFTP file handler\<close>

lemma resolvePath_data_env:
  "resolvePath h connUser ''/data/.env'' =
     (case serviceAndUser connUser of Inl err \<Rightarrow> Inl err | Inr _ \<Rightarrow> Inl (Err ''invalid path''))"
  by (simp add: resolvePath_def CutPrefix_def HasPrefix_def split: sum.splits prod.splits)

text \<open>
  The guard of \<^verbatim>\<open>resolvePath\<close> on the literal path: in every session and on every
  host, resolving \<^verbatim>\<open>/data/.env\<close> returns an error, and so do a read and a write of
  that path, whatever the request's method.
\<close>

lemma resolvePath_literal_data_env:
  "isl (resolvePath h connUser ''/data/.env'')
   \<and> isl (Fileread h connUser \<lparr>SftpMethod = m, Filepath = ''/data/.env''\<rparr>)
   \<and> isl (Filewrite h newInst connUser \<lparr>SftpMethod = m, Filepath = ''/data/.env''\<rparr>)"
proof -
  have r: "isl (resolvePath h connUser ''/data/.env'')"
    by (simp add: resolvePath_data_env split: sum.splits)
  then obtain e where e: "resolvePath h connUser ''/data/.env'' = Inl e"
    by (cases "resolvePath h connUser ''/data/.env''") auto
  have rd: "isl (Fileread h connUser \<lparr>SftpMethod = m, Filepath = ''/data/.env''\<rparr>)"
    by (simp add: Fileread_def e)
  have up: "isl (uploadFile h connUser ''/data/.env'')"
    by (simp add: uploadFile_def e split: sum.splits prod.splits option.splits)
  have wr: "isl (Filewrite h newInst connUser \<lparr>SftpMethod = m, Filepath = ''/data/.env''\<rparr>)"
    using up by (simp add: Filewrite_def HasPrefix_def)
  from r rd wr show ?thesis by simp
qed

text \<open>
  The guard compares the text after \<^verbatim>\<open>/data\<close> with \<^verbatim>\<open>/.env\<close> and nothing else, and
  the session's user string becomes the service name as it is. In a session whose user is
  \<^verbatim>\<open>../..\<close>, a path under \<^verbatim>\<open>/data/\<close> that spells out the way down to a service's
  data directory passes the guard on every host.
\<close>

lemma resolvePath_parent_user:
  "resolvePath h ''../..'' ''/data/services/myapp/data/.env''
     = Inr (Join h [Join h [ServicesRoot h, ''../..''], ''/data/services/myapp/data/.env''])"
  by (simp add: resolvePath_def serviceAndUser_def Cut_def CutPrefix_def HasPrefix_def
      serviceRootDir_def)

text \<open>
  C10 does not hold of the code. Resolving the literal path \<^verbatim>\<open>/data/.env\<close> is always an
  error, but the compose runner's \<^verbatim>\<open>.env\<close> file is still reached through the
  \<^verbatim>\<open>/data/\<close> surface: on the default layout, in a session whose user is \<^verbatim>\<open>../..\<close>, a
  read and a write of \<^verbatim>\<open>/data/services/myapp/data/.env\<close> both open the file
  \<^verbatim>\<open>.env\<close> of the data directory of the service \<^verbatim>\<open>myapp\<close>.
\<close>

theorem data_env_reached_through_data:
  "Join host_default [serviceDataDir host_default ''myapp'', ''.env'']
     = ''/home/catch/data/services/myapp/data/.env''
   \<and> Fileread host_default ''../..''
        \<lparr>SftpMethod = ''Get'', Filepath = ''/data/services/myapp/data/.env''\<rparr>
     = Inr ''/home/catch/data/services/myapp/data/.env''
   \<and> Filewrite host_default newInst_ok ''../..''
        \<lparr>SftpMethod = ''Put'', Filepath = ''/data/services/myapp/data/.env''\<rparr>
     = Inr (DataFile ''/home/catch/data/services/myapp/data/.env'')"
proof -
  have user: "serviceAndUser ''../..'' = Inr (''../..'', [])"
    by (simp add: serviceAndUser_def Cut_def HasPrefix_def)
  have up: "filepath_Join [''/home/catch/data/services'', ''../..''] = ''/home/catch''"
    by (simp add: Clean_def clean_step_def HasPrefix_def)
  have down: "filepath_Join [''/home/catch'', ''/data/services/myapp/data/.env'']
      = ''/home/catch/data/services/myapp/data/.env''"
    by (simp add: Clean_def clean_step_def HasPrefix_def)
  have root: "filepath_Join [''/home/catch/data/services'', ''myapp'']
      = ''/home/catch/data/services/myapp''"
    by (simp add: Clean_def clean_step_def HasPrefix_def)
  have data: "filepath_Join [''/home/catch/data/services/myapp'', ''data'']
      = ''/home/catch/data/services/myapp/data''"
    by (simp add: Clean_def clean_step_def HasPrefix_def)
  have env: "filepath_Join [''/home/catch/data/services/myapp/data'', ''.env'']
      = ''/home/catch/data/services/myapp/data/.env''"
    by (simp add: Clean_def clean_step_def HasPrefix_def)
  have cfg: "ServicesRoot host_default = ''/home/catch/data/services''"
    "Join host_default = filepath_Join" "Open host_default = (\<lambda>_. None)"
    "OpenFile host_default = (\<lambda>_. None)" "ensureDirs host_default = (\<lambda>_ _. None)"
    by (simp_all add: host_default_def)
  have res: "resolvePath host_default ''../..'' ''/data/services/myapp/data/.env''
      = Inr ''/home/catch/data/services/myapp/data/.env''"
    by (simp only: resolvePath_parent_user cfg up down)
  have rd: "Fileread host_default ''../..''
        \<lparr>SftpMethod = ''Get'', Filepath = ''/data/services/myapp/data/.env''\<rparr>
      = Inr ''/home/catch/data/services/myapp/data/.env''"
    by (simp add: Fileread_def res cfg)
  have wr: "Filewrite host_default newInst_ok ''../..''
        \<lparr>SftpMethod = ''Put'', Filepath = ''/data/services/myapp/data/.env''\<rparr>
      = Inr (DataFile ''/home/catch/data/services/myapp/data/.env'')"
    by (simp add: Filewrite_def HasPrefix_def uploadFile_def user res cfg)
  have target: "Join host_default [serviceDataDir host_default ''myapp'', ''.env'']
      = ''/home/catch/data/services/myapp/data/.env''"
    by (simp only: serviceDataDir_def serviceRootDir_def cfg root data env)
  from target rd wr show ?thesis by simp
qed

text \<open>
  C9, as stated, fails: in a session for the service \<^verbatim>\<open>myapp\<close>, on a host where every
  file opens, a read of \<^verbatim>\<open>/\<close> and a read of \<^verbatim>\<open>/stage\<close> are refused.
\<close>

theorem Fileread_root_counterexample:
  "Fileread host_example ''myapp'' \<lparr>SftpMethod = ''Get'', Filepath = ''/''\<rparr>
     = Inl (Err ''invalid path'')
   \<and> Fileread host_example ''myapp'' \<lparr>SftpMethod = ''Get'', Filepath = ''/stage''\<rparr>
     = Inl (Err ''invalid path'')"
  by (simp add: Fileread_def resolvePath_def serviceAndUser_def Cut_def CutPrefix_def
      HasPrefix_def)

text \<open>
  C9, amended. For every SFTP read request (method \<^verbatim>\<open>Get\<close>) in a session whose user
  names a service: a read of \<^verbatim>\<open>/env\<close>, when the service is in a readable store, opens
  the path the artifact index gives as the latest env file; a read of \<^verbatim>\<open>/data\<close> or of
  a path under \<^verbatim>\<open>/data/\<close> other than \<^verbatim>\<open>/data/.env\<close> opens the service root directory
  joined with the virtual path; the read returns what opening that path returns; a read of
  \<^verbatim>\<open>/\<close> or \<^verbatim>\<open>/stage\<close> is refused as an invalid path.
\<close>

theorem Fileread_virtual_paths:
  assumes user: "serviceAndUser connUser = Inr (sn, user)"
  shows "(serviceView (DB h) sn = Inr sv \<longrightarrow>
            Fileread h connUser \<lparr>SftpMethod = ''Get'', Filepath = ''/env''\<rparr> =
              (case Open h (fst (Latest (Artifacts sv) ArtifactEnvFile)) of
                 Some err \<Rightarrow> Inl err
               | None \<Rightarrow> Inr (fst (Latest (Artifacts sv) ArtifactEnvFile))))
       \<and> ((rest = [] \<or> HasPrefix rest ''/'') \<and> rest \<noteq> ''/.env'' \<longrightarrow>
            Fileread h connUser \<lparr>SftpMethod = ''Get'', Filepath = ''/data'' @ rest\<rparr> =
              (case Open h (Join h [serviceRootDir h sn, ''/data'' @ rest]) of
                 Some err \<Rightarrow> Inl err
               | None \<Rightarrow> Inr (Join h [serviceRootDir h sn, ''/data'' @ rest])))
       \<and> Fileread h connUser \<lparr>SftpMethod = ''Get'', Filepath = ''/''\<rparr> = Inl (Err ''invalid path'')
       \<and> Fileread h connUser \<lparr>SftpMethod = ''Get'', Filepath = ''/stage''\<rparr>
            = Inl (Err ''invalid path'')"
proof -
  have env: "serviceView (DB h) sn = Inr sv \<Longrightarrow>
      resolvePath h connUser ''/env'' = Inr (fst (Latest (Artifacts sv) ArtifactEnvFile))"
    using user by (simp add: resolvePath_def envFile_def Let_def)
  have cut: "CutPrefix (''/data'' @ rest) ''/data'' = (rest, True)"
    by (simp add: CutPrefix_def HasPrefix_def)
  have ne: "(rest = [] \<or> HasPrefix rest ''/'') \<Longrightarrow> ''/data'' @ rest \<noteq> ''/env''
      \<and> ''/data'' @ rest \<noteq> ''/stage/env''"
    by auto
  have data: "(rest = [] \<or> HasPrefix rest ''/'') \<and> rest \<noteq> ''/.env'' \<Longrightarrow>
      resolvePath h connUser (''/data'' @ rest) = Inr (Join h [serviceRootDir h sn, ''/data'' @ rest])"
    using user ne unfolding resolvePath_def cut Let_def by auto
  have root: "resolvePath h connUser ''/'' = Inl (Err ''invalid path'')"
    "resolvePath h connUser ''/stage'' = Inl (Err ''invalid path'')"
    using user by (simp_all add: resolvePath_def CutPrefix_def HasPrefix_def)
  show ?thesis
    using env data root by (simp add: Fileread_def split: option.splits)
qed

theorem Fileread_virtual_paths_witness:
  "Fileread host_example ''myapp'' \<lparr>SftpMethod = ''Get'', Filepath = ''/env''\<rparr>
     = Inr ''/srv/myapp/env/env-2''
   \<and> Fileread host_example ''myapp'' \<lparr>SftpMethod = ''Get'', Filepath = ''/data/notes.txt''\<rparr>
     = Inr ''/srv/myapp/data/notes.txt''"
proof -
  have u: "serviceAndUser ''myapp'' = Inr (''myapp'', [])"
    by (simp add: serviceAndUser_def Cut_def HasPrefix_def)
  have sv: "serviceView (DB host_example) ''myapp'' = Inr myapp_env"
    by (simp add: serviceView_def getDB_def DB_Get_def host_example_def)
  have p: "(''/notes.txt'' = [] \<or> HasPrefix ''/notes.txt'' ''/'') \<and> ''/notes.txt'' \<noteq> ''/.env''"
    by (simp add: HasPrefix_def)
  show ?thesis
    using Fileread_virtual_paths [OF u, of host_example myapp_env "''/notes.txt''"] sv p
    by (simp add: host_example_def myapp_env_def serviceRootDir_def HasPrefix_def)
qed

section \<open>The payload classifier\<close>

text \<open>
  C6 does not hold of the code. For every payload the classifier finds to be neither a
  native binary, nor a zstd stream, nor a shebang script, \<^verbatim>\<open>detect\<close> answers
  \<^verbatim>\<open>DockerCompose\<close> if and only if the payload unmarshals as YAML into
  \<^verbatim>\<open>servicesForm\<close>: whether the document has a \<^verbatim>\<open>services\<close> key plays no part, so a
  YAML document without that key is classified as compose.
\<close>

theorem detect_compose_iff_yaml:
  assumes payload: "file_f fl = Some osf"
      and not_binary: "detectBinary fl = Inr False"
      and not_zstd: "detectZstd fl = Inr False"
      and not_script: "detectScript fl = Inr False"
  shows "(detect ps fl = Inr DockerCompose) \<longleftrightarrow> (\<exists>form. yaml_Unmarshal ps (bytes osf) = Inr form)"
proof -
  have seek: "checkAndSeek0 fl = None"
    using not_zstd by (cases "checkAndSeek0 fl") (simp_all add: detectZstd_def)
  have rd: "ReadAll fl = Inr (bytes osf)"
    using not_zstd seek payload
    by (auto simp: detectZstd_def ReadAll_def split: if_splits)
  have dc: "detectDockerCompose ps fl =
      (case yaml_Unmarshal ps (bytes osf) of Inl err \<Rightarrow> Inr False | Inr form \<Rightarrow> Inr True)"
    by (simp add: detectDockerCompose_def seek rd)
  show ?thesis
  proof (cases "yaml_Unmarshal ps (bytes osf)")
    case (Inl err)
    then have "detectDockerCompose ps fl = Inr False" by (simp add: dc)
    then have "detect ps fl \<noteq> Inr DockerCompose"
      by (simp add: detect_def not_binary not_zstd not_script split: sum.splits bool.splits)
    with Inl show ?thesis by simp
  next
    case (Inr form)
    then have "detectDockerCompose ps fl = Inr True" by (simp add: dc)
    then have "detect ps fl = Inr DockerCompose"
      by (simp add: detect_def not_binary not_zstd not_script)
    with Inr show ?thesis by simp
  qed
qed

theorem detect_compose_iff_yaml_witness:
  "yaml_Unmarshal parsers_example foo_bar_yaml = Inr \<lparr>FormServices = None\<rparr>
   \<and> detect parsers_example foo_bar_file = Inr DockerCompose"
proof -
  have payload: "file_f foo_bar_file
      = Some \<lparr>bytes = foo_bar_yaml, seek_fails = False, read_fails = False\<rparr>"
    by (simp add: foo_bar_file_def)
  have seek: "checkAndSeek0 foo_bar_file = None"
    by (simp add: checkAndSeek0_def foo_bar_file_def)
  have rf4: "ReadFull foo_bar_file 4 = Inr [0x66, 0x6F, 0x6F, 0x3A]"
    and rf2: "ReadFull foo_bar_file 2 = Inr [0x66, 0x6F]"
    and ra: "ReadAll foo_bar_file = Inr foo_bar_yaml"
    and os: "goos foo_bar_file = ''linux''"
    by (simp_all add: ReadFull_def ReadAll_def foo_bar_file_def foo_bar_yaml_def)
  have not_binary: "detectBinary foo_bar_file = Inr False"
    by (simp add: detectBinary_def seek rf4 os Uint32_def Magic32_def Magic64_def MagicFat_def)
  have not_zstd: "detectZstd foo_bar_file = Inr False"
    by (simp add: detectZstd_def seek ra foo_bar_yaml_def)
  have not_script: "detectScript foo_bar_file = Inr False"
    by (simp add: detectScript_def seek rf2)
  have y: "yaml_Unmarshal parsers_example foo_bar_yaml = Inr \<lparr>FormServices = None\<rparr>"
    by (simp add: parsers_example_def)
  show ?thesis
    using detect_compose_iff_yaml [OF payload not_binary not_zstd not_script, of parsers_example] y
    by simp
qed

section \<open>The event bus\<close>

lemma publish_loop_all_accept:
  "\<forall>el\<in>set ls. selects el e \<longrightarrow> chan_send (ch el) e \<noteq> None
   \<Longrightarrow> publish_loop e ls = Returned (map (deliver e) ls)"
proof (induction ls)
  case Nil
  then show ?case by simp
next
  case (Cons el ls)
  then have rest: "publish_loop e ls = Returned (map (deliver e) ls)" by simp
  show ?case
  proof (cases "selects el e")
    case True
    with Cons.prems obtain c where c: "chan_send (ch el) e = Some c" by auto
    with True rest show ?thesis
      by (auto simp: selects_def deliver_def split: option.splits)
  next
    case False
    with rest show ?thesis
      by (auto simp: selects_def deliver_def split: option.splits)
  qed
qed

lemma publish_loop_some_refuses:
  "\<exists>el\<in>set ls. selects el e \<and> chan_send (ch el) e = None
   \<Longrightarrow> \<exists>ls'. publish_loop e ls = Blocked ls'"
proof (induction ls)
  case Nil
  then show ?case by simp
next
  case (Cons el ls)
  show ?case
  proof (cases "selects el e \<and> chan_send (ch el) e = None")
    case True
    then show ?thesis by (auto simp: selects_def split: option.splits)
  next
    case False
    with Cons.prems have "\<exists>el\<in>set ls. selects el e \<and> chan_send (ch el) e = None" by auto
    with Cons.IH obtain ls' where "publish_loop e ls = Blocked ls'" by blast
    with False show ?thesis
      by (auto simp: selects_def split: option.splits)
  qed
qed

text \<open>
  C3, as stated, fails: with one listener on an unbuffered channel that nobody is
  receiving from, the publish call does not return and the event is not dropped; the
  publisher waits in the send.
\<close>

theorem PublishEvent_blocks_counterexample:
  "chan_send (ch slow_listener) (deleted_event\<lparr>Time := 1000\<rparr>) = None
   \<and> PublishEvent 1000 [slow_listener] deleted_event = Blocked [slow_listener]"
  by (simp add: PublishEvent_def slow_listener_def idle_chan_def chan_send_def)

text \<open>
  C3, amended. For every event publication and every list of registered listeners, the
  publisher sends the time-stamped event, with a blocking channel send, to each listener
  that has no filter or whose filter accepts the event, and skips the others: if the
  channel of each such listener can accept the event, the call returns with the event
  delivered to every one of them and none dropped; if the channel of one of them cannot
  accept it, the call does not return while that listener makes no progress.
\<close>

theorem PublishEvent_blocking_send:
  "((\<forall>el\<in>set ls. selects el (ev\<lparr>Time := now\<rparr>) \<longrightarrow> chan_send (ch el) (ev\<lparr>Time := now\<rparr>) \<noteq> None)
      \<longrightarrow> PublishEvent now ls ev = Returned (map (deliver (ev\<lparr>Time := now\<rparr>)) ls))
   \<and> ((\<exists>el\<in>set ls. selects el (ev\<lparr>Time := now\<rparr>) \<and> chan_send (ch el) (ev\<lparr>Time := now\<rparr>) = None)
      \<longrightarrow> (\<exists>ls'. PublishEvent now ls ev = Blocked ls'))"
  unfolding PublishEvent_def
  using publish_loop_all_accept [of ls "ev\<lparr>Time := now\<rparr>"]
    publish_loop_some_refuses [of ls "ev\<lparr>Time := now\<rparr>"]
  by blast

theorem PublishEvent_blocking_send_witness:
  "PublishEvent 1000 [ready_listener, deaf_listener] deleted_event
     = Returned [ready_listener\<lparr>ch := waiting_chan\<lparr>receivers := 0,
                    received := [deleted_event\<lparr>Time := 1000\<rparr>]\<rparr>\<rparr>, deaf_listener]
   \<and> PublishEvent 1000 [deaf_listener, slow_listener] deleted_event
     \<noteq> Returned [deaf_listener, slow_listener]"
  using PublishEvent_blocking_send [where ls = "[ready_listener, deaf_listener]"
      and ev = deleted_event and now = 1000]
    PublishEvent_blocking_send [where ls = "[deaf_listener, slow_listener]"
      and ev = deleted_event and now = 1000]
  by (auto simp: selects_def deliver_def ready_listener_def deaf_listener_def slow_listener_def
      waiting_chan_def idle_chan_def chan_send_def)


section \<open>Removing a service\<close>

lemma removeDirs_all_removed:
  "\<forall>dir\<in>set dirs. dir \<noteq> ''data'' \<longrightarrow> rm dir = None
   \<Longrightarrow> removeDirs rm dirs = (None, filter (\<lambda>dir. dir = ''data'') dirs)"
  by (induction dirs) auto

text \<open>
  C7. For every service: if the service is detected as running, removing it returns an
  error and changes no state. If it is not, and listing and removing the directories,
  deleting the mesh-VPN device (when the service has one) and writing the store succeed,
  removal deletes every entry of the service root except \<^verbatim>\<open>data\<close>, removes the service
  entry from the store, and publishes exactly one \<^verbatim>\<open>ServiceDeleted\<close> event for the
  service: the call ends as that one publication ends.
\<close>

theorem RemoveService_running_or_removed:
  "(IsServiceRunning env s sn = Inr True \<longrightarrow>
      RemoveService env s sn = Returned (Some (Err ''service is not stopped''), s))
   \<and> (IsServiceRunning env s sn \<noteq> Inr True
      \<and> Glob_err env = None
      \<and> (\<forall>dir\<in>set (entries s sn). dir \<noteq> ''data'' \<longrightarrow>
            RemoveAll env (Join (host s) [ServicesRoot (host s), sn, dir]) = None)
      \<and> deleteDevice env s sn = None
      \<and> read_err (DB (host s)) = None \<and> write_err (DB (host s)) = None \<longrightarrow>
      RemoveService env s sn =
        outcome_map
          (\<lambda>ls. (None,
             s\<lparr>entries := (entries s)(sn := filter (\<lambda>dir. dir = ''data'') (entries s sn)),
               host := (host s)\<lparr>DB := (DB (host s))
                 \<lparr>content := (content (DB (host s)))
                    \<lparr>Services := (Services (content (DB (host s))))(sn := None)\<rparr>\<rparr>\<rparr>,
               eventListeners := ls\<rparr>))
          (PublishEvent (unixMilli env) (eventListeners s)
             \<lparr>Time = 0, ServiceName = sn, Type = EventTypeServiceDeleted, EventData = None\<rparr>))"
proof (intro conjI impI)
  assume "IsServiceRunning env s sn = Inr True"
  then show "RemoveService env s sn = Returned (Some (Err ''service is not stopped''), s)"
    by (simp add: RemoveService_def)
next
  let ?left = "filter (\<lambda>dir. dir = ''data'') (entries s sn)"
  let ?s1 = "s\<lparr>entries := (entries s)(sn := ?left)\<rparr>"
  assume a: "IsServiceRunning env s sn \<noteq> Inr True
      \<and> Glob_err env = None
      \<and> (\<forall>dir\<in>set (entries s sn). dir \<noteq> ''data'' \<longrightarrow>
            RemoveAll env (Join (host s) [ServicesRoot (host s), sn, dir]) = None)
      \<and> deleteDevice env s sn = None
      \<and> read_err (DB (host s)) = None \<and> write_err (DB (host s)) = None"
  then have rm: "removeDirs (\<lambda>dir. RemoveAll env (Join (host s) [ServicesRoot (host s), sn, dir]))
      (entries s sn) = (None, ?left)"
    by (intro removeDirs_all_removed) simp
  have dev: "deleteDevice env ?s1 sn = None"
    using a by (simp add: deleteDevice_def)
  have mut: "MutateData (DB (host s)) (\<lambda>d. Inr (d\<lparr>Services := (Services d)(sn := None)\<rparr>))
      = Inr ((DB (host s))\<lparr>content := (content (DB (host s)))
               \<lparr>Services := (Services (content (DB (host s))))(sn := None)\<rparr>\<rparr>,
             (content (DB (host s)))
               \<lparr>Services := (Services (content (DB (host s))))(sn := None)\<rparr>)"
    using a by (simp add: MutateData_def DB_Get_def DB_Set_def)
  show "RemoveService env s sn =
        outcome_map
          (\<lambda>ls. (None,
             s\<lparr>entries := (entries s)(sn := ?left),
               host := (host s)\<lparr>DB := (DB (host s))
                 \<lparr>content := (content (DB (host s)))
                    \<lparr>Services := (Services (content (DB (host s))))(sn := None)\<rparr>\<rparr>\<rparr>,
               eventListeners := ls\<rparr>))
          (PublishEvent (unixMilli env) (eventListeners s)
             \<lparr>Time = 0, ServiceName = sn, Type = EventTypeServiceDeleted, EventData = None\<rparr>)"
    using a unfolding RemoveService_def rm
    by (simp add: dev mut Let_def)
qed

theorem RemoveService_running_or_removed_witness:
  "RemoveService env_running server_example ''myapp''
     = Returned (Some (Err ''service is not stopped''), server_example)
   \<and> (case RemoveService env_stopped server_example ''myapp'' of
        Returned (err, s') \<Rightarrow>
          err = None \<and> entries s' ''myapp'' = [''data'']
          \<and> Services (content (DB (host s'))) ''myapp'' = None
          \<and> map (\<lambda>el. received (ch el)) (eventListeners s')
              = [[\<lparr>Time = 1000, ServiceName = ''myapp'', Type = EventTypeServiceDeleted,
                   EventData = None\<rparr>]]
      | Blocked _ \<Rightarrow> False)"
proof -
  have ty: "svcType (DB (host server_example)) ''myapp'' = Inr ServiceTypeSystemd"
    by (simp add: svcType_def serviceView_def getDB_def DB_Get_def server_example_def
        host_example_def myapp_env_def)
  have running: "IsServiceRunning env_running server_example ''myapp'' = Inr True"
    by (simp add: IsServiceRunning_def ty env_running_def env_stopped_def)
  have stopped: "IsServiceRunning env_stopped server_example ''myapp'' \<noteq> Inr True"
    by (simp add: IsServiceRunning_def ty env_stopped_def)
  have glob: "Glob_err env_stopped = None"
    and rm: "\<forall>dir\<in>set (entries server_example ''myapp''). dir \<noteq> ''data'' \<longrightarrow>
        RemoveAll env_stopped
          (Join (host server_example) [ServicesRoot (host server_example), ''myapp'', dir]) = None"
    and io: "read_err (DB (host server_example)) = None"
      "write_err (DB (host server_example)) = None"
    by (simp_all add: env_stopped_def server_example_def host_example_def)
  have dev: "deleteDevice env_stopped server_example ''myapp'' = None"
    by (simp add: deleteDevice_def serviceView_def getDB_def DB_Get_def server_example_def
        host_example_def myapp_env_def)
  have pub: "PublishEvent (unixMilli env_stopped) (eventListeners server_example)
        \<lparr>Time = 0, ServiceName = ''myapp'', Type = EventTypeServiceDeleted, EventData = None\<rparr>
      = Returned [ready_listener\<lparr>ch := waiting_chan\<lparr>receivers := 0,
          received := [\<lparr>Time = 1000, ServiceName = ''myapp'', Type = EventTypeServiceDeleted,
                        EventData = None\<rparr>]\<rparr>\<rparr>]"
    by (simp add: PublishEvent_def env_stopped_def server_example_def ready_listener_def
        waiting_chan_def chan_send_def)
  have ent: "filter (\<lambda>dir. dir = ''data'') (entries server_example ''myapp'') = [''data'']"
    by (simp add: server_example_def)
  from RemoveService_running_or_removed [of env_running server_example "''myapp''"] running
  have first: "RemoveService env_running server_example ''myapp''
     = Returned (Some (Err ''service is not stopped''), server_example)"
    by simp
  from RemoveService_running_or_removed [of env_stopped server_example "''myapp''"]
    stopped glob rm io dev
  have second: "RemoveService env_stopped server_example ''myapp'' =
        outcome_map
          (\<lambda>ls. (None,
             server_example\<lparr>entries := (entries server_example)
                 (''myapp'' := filter (\<lambda>dir. dir = ''data'') (entries server_example ''myapp'')),
               host := (host server_example)\<lparr>DB := (DB (host server_example))
                 \<lparr>content := (content (DB (host server_example)))
                    \<lparr>Services := (Services (content (DB (host server_example))))
                        (''myapp'' := None)\<rparr>\<rparr>\<rparr>,
               eventListeners := ls\<rparr>))
          (PublishEvent (unixMilli env_stopped) (eventListeners server_example)
             \<lparr>Time = 0, ServiceName = ''myapp'', Type = EventTypeServiceDeleted,
              EventData = None\<rparr>)"
    by blast
  show ?thesis
    unfolding first second pub ent by simp
qed

section \<open>The registry's manifest writes\<close>

lemma Index_absent: "c \<notin> set s \<Longrightarrow> Index s [c] = None"
  by (induction s) (auto simp: HasPrefix_def)

lemma Index_first: "c \<notin> set a \<Longrightarrow> Index (a @ c # b) [c] = Some (length a)"
  by (induction a) (auto simp: HasPrefix_def)

lemma CountByte_one_split:
  "CountByte s c = 1 \<Longrightarrow> \<exists>a b. s = a @ c # b \<and> c \<notin> set a \<and> c \<notin> set b"
proof (induction s)
  case Nil
  then show ?case by (simp add: CountByte_def)
next
  case (Cons x s)
  show ?case
  proof (cases "x = c")
    case True
    with Cons.prems have "length (filter (\<lambda>y. y = c) s) = 0" by (simp add: CountByte_def)
    then have "c \<notin> set s" by (auto simp: filter_empty_conv)
    with True have "x # s = [] @ c # s \<and> c \<notin> set [] \<and> c \<notin> set s" by simp
    then show ?thesis by blast
  next
    case False
    with Cons.prems have "CountByte s c = 1" by (simp add: CountByte_def)
    with Cons.IH obtain a b where "s = a @ c # b" "c \<notin> set a" "c \<notin> set b" by blast
    with False have "x # s = (x # a) @ c # b \<and> c \<notin> set (x # a) \<and> c \<notin> set b" by auto
    then show ?thesis by blast
  qed
qed

lemma Cut_one_slash:
  assumes "CountByte repo (CHR ''/'') = 1"
  shows "\<exists>svc container. Cut repo ''/'' = (svc, container, True) \<and> \<not> Contains container ''/''
           \<and> repo = svc @ ''/'' @ container"
proof -
  from assms obtain a b where ab: "repo = a @ CHR ''/'' # b" "CHR ''/'' \<notin> set a" "CHR ''/'' \<notin> set b"
    using CountByte_one_split by blast
  have "Cut repo ''/'' = (a, b, True)"
    using ab by (simp add: Cut_def Index_first)
  moreover have "\<not> Contains b ''/''"
    using ab by (simp add: Contains_def Index_absent)
  ultimately show ?thesis using ab by simp
qed

lemma SetManifest_stores:
  assumes repo: "CountByte repo (CHR ''/'') = 1"
      and io: "read_err (DB (reg_host cr)) = None" "write_err (DB (reg_host cr)) = None"
        "manifest_write_err cr = None"
      and refs: "tagReferences tag = (references, shouldInstall)"
  shows "SetManifest env cr repo tag manifest =
           (cr\<lparr>manifests := (manifests cr)(sha256_hex env (Blob manifest) \<mapsto> Blob manifest),
               reg_host := (reg_host cr)\<lparr>DB := (DB (reg_host cr))\<lparr>content :=
                 (content (DB (reg_host cr)))\<lparr>Images := (Images (content (DB (reg_host cr))))
                   (repo \<mapsto> foldl (\<lambda>ir reference.
                       ir\<lparr>Refs := (Refs ir)(reference \<mapsto>
                         \<lparr>ContentType = ManifestContentType manifest,
                          BlobHash = sha256_hex env (Blob manifest)\<rparr>)\<rparr>)
                     \<lparr>Refs = refs_of cr repo\<rparr> references)\<rparr>\<rparr>\<rparr>\<rparr>,
            installCompose env (reg_host cr)
              ((content (DB (reg_host cr)))\<lparr>Images := (Images (content (DB (reg_host cr))))
                   (repo \<mapsto> foldl (\<lambda>ir reference.
                       ir\<lparr>Refs := (Refs ir)(reference \<mapsto>
                         \<lparr>ContentType = ManifestContentType manifest,
                          BlobHash = sha256_hex env (Blob manifest)\<rparr>)\<rparr>)
                     \<lparr>Refs = refs_of cr repo\<rparr> references)\<rparr>)
              repo (fst (Cut repo ''/'')) shouldInstall)"
proof -
  from Cut_one_slash [OF repo] obtain svc container where
    cut: "Cut repo ''/'' = (svc, container, True)" "\<not> Contains container ''/''"
    by blast
  have ir: "(case Images (content (DB (reg_host cr))) repo of Some ir \<Rightarrow> ir
             | None \<Rightarrow> \<lparr>Refs = Map.empty\<rparr>) = \<lparr>Refs = refs_of cr repo\<rparr>"
    by (simp add: refs_of_def split: option.splits)
  show ?thesis
    unfolding SetManifest_def
    using repo io
    by (simp add: cut refs ir getDB_def DB_Get_def DB_Set_def storeManifest_def Let_def)
qed

lemma installCompose_first:
  "take 1 (installCompose env h d repo svcName shouldInstall) =
     [NewFileInstaller \<lparr>EnvFile = False, CfgServiceName = svcName, CfgUser = [],
        StageOnly = (\<not> shouldInstall)\<rparr>]"
  by (simp add: installCompose_def Let_def split: option.splits sum.splits)

lemma installCompose_template:
  assumes "newInstaller env \<lparr>EnvFile = False, CfgServiceName = svcName, CfgUser = [],
             StageOnly = (\<not> shouldInstall)\<rparr> = None"
      and "copy_err env = None"
      and "case Services d svcName of
             None \<Rightarrow> True
           | Some s \<Rightarrow> Generation s \<le> 0
               \<or> \<not> snd (Gen (Artifacts s) ArtifactDockerComposeFile (Generation s - 1))"
  shows "installCompose env h d repo svcName shouldInstall =
           [NewFileInstaller \<lparr>EnvFile = False, CfgServiceName = svcName, CfgUser = [],
              StageOnly = (\<not> shouldInstall)\<rparr>,
            CopyInto (composeTemplate svcName (InternalRegistryHost @ ''/'' @ repo)
              (serviceDataDir h svcName)),
            Close, Close]"
  using assms
  by (auto simp: installCompose_def Let_def split: option.splits prod.splits)

lemma installCompose_previous:
  assumes "newInstaller env \<lparr>EnvFile = False, CfgServiceName = svcName, CfgUser = [],
             StageOnly = (\<not> shouldInstall)\<rparr> = None"
      and "copy_err env = None"
      and "Services d svcName = Some s" and "0 < Generation s"
      and "Gen (Artifacts s) ArtifactDockerComposeFile (Generation s - 1) = (prevFile, True)"
      and "ReadFile env prevFile = Inr prev"
  shows "installCompose env h d repo svcName shouldInstall =
           [NewFileInstaller \<lparr>EnvFile = False, CfgServiceName = svcName, CfgUser = [],
              StageOnly = (\<not> shouldInstall)\<rparr>,
            CopyInto (if prev = []
                      then composeTemplate svcName (InternalRegistryHost @ ''/'' @ repo)
                             (serviceDataDir h svcName)
                      else prev),
            Close, Close]"
  using assms
  by (simp add: installCompose_def Let_def)

text \<open>
  C4. For every manifest PUT to a repository name with exactly one slash, when reading the
  store, writing the manifest file and writing the store succeed: the manifest is stored
  under its hash; writing tag \<^verbatim>\<open>latest\<close> changes the repository's references in
  exactly one place, \<^verbatim>\<open>staged\<close>, which points at the stored manifest (no \<^verbatim>\<open>run\<close>
  reference comes from this write); writing tag \<^verbatim>\<open>run\<close> makes both \<^verbatim>\<open>staged\<close> and
  \<^verbatim>\<open>run\<close> point at it; writing any other tag stores that tag as it is. The write then
  asks for an installer for the service named before the slash, a committing one (not
  stage-only) exactly when the tag is \<^verbatim>\<open>run\<close>; when the installer is created and the
  copy into it succeeds, the install runs to its end: the installer is fed the compose
  file of the previous generation, or the default template when there is none or it is
  empty, and is closed.
\<close>

theorem SetManifest_tag_mapping:
  assumes repo: "CountByte repo (CHR ''/'') = 1"
      and io: "read_err (DB (reg_host cr)) = None" "write_err (DB (reg_host cr)) = None"
        "manifest_write_err cr = None"
      and m: "m = \<lparr>ContentType = ManifestContentType manifest,
                   BlobHash = sha256_hex env (Blob manifest)\<rparr>"
      and cfg: "cfg = \<lparr>EnvFile = False, CfgServiceName = fst (Cut repo ''/''), CfgUser = [],
                       StageOnly = (tag \<noteq> ''run'')\<rparr>"
      and template: "template = composeTemplate (fst (Cut repo ''/''))
                       (InternalRegistryHost @ ''/'' @ repo)
                       (serviceDataDir (reg_host cr) (fst (Cut repo ''/'')))"
  shows "manifests (fst (SetManifest env cr repo tag manifest)) (sha256_hex env (Blob manifest))
           = Some (Blob manifest)
       \<and> (tag = ''latest'' \<longrightarrow>
            refs_of (fst (SetManifest env cr repo tag manifest)) repo
              = (refs_of cr repo)(''staged'' \<mapsto> m))
       \<and> (tag = ''run'' \<longrightarrow>
            refs_of (fst (SetManifest env cr repo tag manifest)) repo
              = (refs_of cr repo)(''run'' \<mapsto> m, ''staged'' \<mapsto> m))
       \<and> (tag \<noteq> ''latest'' \<and> tag \<noteq> ''run'' \<longrightarrow>
            refs_of (fst (SetManifest env cr repo tag manifest)) repo
              = (refs_of cr repo)(tag \<mapsto> m))
       \<and> take 1 (snd (SetManifest env cr repo tag manifest)) = [NewFileInstaller cfg]
       \<and> (newInstaller env cfg = None \<and> copy_err env = None
          \<and> (case Services (content (DB (reg_host cr))) (fst (Cut repo ''/'')) of
                None \<Rightarrow> True
              | Some s \<Rightarrow> Generation s \<le> 0
                  \<or> \<not> snd (Gen (Artifacts s) ArtifactDockerComposeFile (Generation s - 1)))
          \<longrightarrow> snd (SetManifest env cr repo tag manifest)
                = [NewFileInstaller cfg, CopyInto template, Close, Close])
       \<and> (newInstaller env cfg = None \<and> copy_err env = None
          \<and> Services (content (DB (reg_host cr))) (fst (Cut repo ''/'')) = Some s
          \<and> 0 < Generation s
          \<and> Gen (Artifacts s) ArtifactDockerComposeFile (Generation s - 1) = (prevFile, True)
          \<and> ReadFile env prevFile = Inr prev
          \<longrightarrow> snd (SetManifest env cr repo tag manifest)
                = [NewFileInstaller cfg, CopyInto (if prev = [] then template else prev),
                   Close, Close])"
proof -
  obtain references shouldInstall where refs: "tagReferences tag = (references, shouldInstall)"
    by (cases "tagReferences tag") auto
  note res = SetManifest_stores [OF repo io refs, of env manifest]
  let ?d' = "(content (DB (reg_host cr)))\<lparr>Images := (Images (content (DB (reg_host cr))))
                   (repo \<mapsto> foldl (\<lambda>ir reference.
                       ir\<lparr>Refs := (Refs ir)(reference \<mapsto>
                         \<lparr>ContentType = ManifestContentType manifest,
                          BlobHash = sha256_hex env (Blob manifest)\<rparr>)\<rparr>)
                     \<lparr>Refs = refs_of cr repo\<rparr> references)\<rparr>"
  have steps: "snd (SetManifest env cr repo tag manifest)
      = installCompose env (reg_host cr) ?d' repo (fst (Cut repo ''/'')) shouldInstall"
    by (simp add: res)
  have same: "Services ?d' = Services (content (DB (reg_host cr)))"
    by simp
  have stored: "manifests (fst (SetManifest env cr repo tag manifest))
      (sha256_hex env (Blob manifest)) = Some (Blob manifest)"
    by (simp add: res)
  have after: "refs_of (fst (SetManifest env cr repo tag manifest)) repo =
      Refs (foldl (\<lambda>ir reference. ir\<lparr>Refs := (Refs ir)(reference \<mapsto> m)\<rparr>)
              \<lparr>Refs = refs_of cr repo\<rparr> references)"
    by (simp add: res m refs_of_def)
  have latest: "tag = ''latest'' \<Longrightarrow> references = [''staged''] \<and> \<not> shouldInstall"
    and run: "tag = ''run'' \<Longrightarrow> references = [''run'', ''staged''] \<and> shouldInstall"
    and other: "tag \<noteq> ''latest'' \<and> tag \<noteq> ''run'' \<Longrightarrow> references = [tag] \<and> \<not> shouldInstall"
    using refs by (auto simp: tagReferences_def)
  have stage: "(\<not> shouldInstall) = (tag \<noteq> ''run'')"
    using latest run other by blast
  have cfg': "cfg = \<lparr>EnvFile = False, CfgServiceName = fst (Cut repo ''/''), CfgUser = [],
                       StageOnly = (\<not> shouldInstall)\<rparr>"
    by (simp add: cfg stage)
  have inst: "take 1 (snd (SetManifest env cr repo tag manifest)) = [NewFileInstaller cfg]"
    unfolding steps installCompose_first cfg' ..
  have c1: "tag = ''latest'' \<longrightarrow>
      refs_of (fst (SetManifest env cr repo tag manifest)) repo
        = (refs_of cr repo)(''staged'' \<mapsto> m)"
    using latest after by auto
  have c2: "tag = ''run'' \<longrightarrow>
      refs_of (fst (SetManifest env cr repo tag manifest)) repo
        = (refs_of cr repo)(''run'' \<mapsto> m, ''staged'' \<mapsto> m)"
    using run after by auto
  have c3: "tag \<noteq> ''latest'' \<and> tag \<noteq> ''run'' \<longrightarrow>
      refs_of (fst (SetManifest env cr repo tag manifest)) repo = (refs_of cr repo)(tag \<mapsto> m)"
    using other after by auto
  have c4: "newInstaller env cfg = None \<and> copy_err env = None
          \<and> (case Services (content (DB (reg_host cr))) (fst (Cut repo ''/'')) of
                None \<Rightarrow> True
              | Some s \<Rightarrow> Generation s \<le> 0
                  \<or> \<not> snd (Gen (Artifacts s) ArtifactDockerComposeFile (Generation s - 1)))
          \<longrightarrow> snd (SetManifest env cr repo tag manifest)
                = [NewFileInstaller cfg, CopyInto template, Close, Close]"
  proof
    assume a: "newInstaller env cfg = None \<and> copy_err env = None
          \<and> (case Services (content (DB (reg_host cr))) (fst (Cut repo ''/'')) of
                None \<Rightarrow> True
              | Some s \<Rightarrow> Generation s \<le> 0
                  \<or> \<not> snd (Gen (Artifacts s) ArtifactDockerComposeFile (Generation s - 1)))"
    have "installCompose env (reg_host cr) ?d' repo (fst (Cut repo ''/'')) shouldInstall =
           [NewFileInstaller \<lparr>EnvFile = False, CfgServiceName = fst (Cut repo ''/''),
              CfgUser = [], StageOnly = (\<not> shouldInstall)\<rparr>,
            CopyInto (composeTemplate (fst (Cut repo ''/'')) (InternalRegistryHost @ ''/'' @ repo)
              (serviceDataDir (reg_host cr) (fst (Cut repo ''/'')))),
            Close, Close]"
      using a unfolding cfg' by (intro installCompose_template) (simp_all only: same)
    then show "snd (SetManifest env cr repo tag manifest)
                = [NewFileInstaller cfg, CopyInto template, Close, Close]"
      by (simp only: steps cfg' template)
  qed
  have c5: "newInstaller env cfg = None \<and> copy_err env = None
          \<and> Services (content (DB (reg_host cr))) (fst (Cut repo ''/'')) = Some s
          \<and> 0 < Generation s
          \<and> Gen (Artifacts s) ArtifactDockerComposeFile (Generation s - 1) = (prevFile, True)
          \<and> ReadFile env prevFile = Inr prev
          \<longrightarrow> snd (SetManifest env cr repo tag manifest)
                = [NewFileInstaller cfg, CopyInto (if prev = [] then template else prev),
                   Close, Close]"
  proof
    assume a: "newInstaller env cfg = None \<and> copy_err env = None
          \<and> Services (content (DB (reg_host cr))) (fst (Cut repo ''/'')) = Some s
          \<and> 0 < Generation s
          \<and> Gen (Artifacts s) ArtifactDockerComposeFile (Generation s - 1) = (prevFile, True)
          \<and> ReadFile env prevFile = Inr prev"
    have "installCompose env (reg_host cr) ?d' repo (fst (Cut repo ''/'')) shouldInstall =
           [NewFileInstaller \<lparr>EnvFile = False, CfgServiceName = fst (Cut repo ''/''),
              CfgUser = [], StageOnly = (\<not> shouldInstall)\<rparr>,
            CopyInto (if prev = []
                      then composeTemplate (fst (Cut repo ''/''))
                             (InternalRegistryHost @ ''/'' @ repo)
                             (serviceDataDir (reg_host cr) (fst (Cut repo ''/'')))
                      else prev),
            Close, Close]"
      using a unfolding cfg'
      by (intro installCompose_previous [where s = s and prevFile = prevFile])
        (simp_all only: same)
    then show "snd (SetManifest env cr repo tag manifest)
                = [NewFileInstaller cfg, CopyInto (if prev = [] then template else prev),
                   Close, Close]"
      by (simp only: steps cfg' template)
  qed
  from stored c1 c2 c3 inst c4 c5 show ?thesis by blast
qed

theorem SetManifest_tag_mapping_witness:
  "refs_of (fst (SetManifest registry_env_example registry_example ''myapp/web'' ''latest''
       manifest_example)) ''myapp/web''
     = [''staged'' \<mapsto> manifest_ref_example]
   \<and> refs_of (fst (SetManifest registry_env_example registry_example ''myapp/web'' ''run''
       manifest_example)) ''myapp/web''
     = [''run'' \<mapsto> manifest_ref_example, ''staged'' \<mapsto> manifest_ref_example]
   \<and> refs_of (fst (SetManifest registry_env_example registry_example ''myapp/web'' ''v1''
       manifest_example)) ''myapp/web''
     = [''v1'' \<mapsto> manifest_ref_example]
   \<and> snd (SetManifest registry_env_example registry_example ''myapp/web'' ''run''
       manifest_example)
     = [NewFileInstaller \<lparr>EnvFile = False, CfgServiceName = ''myapp'', CfgUser = [],
          StageOnly = False\<rparr>,
        CopyInto (composeTemplate ''myapp'' ''catchit.dev/myapp/web'' ''/srv/myapp/data''),
        Close, Close]
   \<and> snd (SetManifest registry_env_example registry_example ''myapp/web'' ''latest''
       manifest_example)
     = [NewFileInstaller \<lparr>EnvFile = False, CfgServiceName = ''myapp'', CfgUser = [],
          StageOnly = True\<rparr>,
        CopyInto (composeTemplate ''myapp'' ''catchit.dev/myapp/web'' ''/srv/myapp/data''),
        Close, Close]
   \<and> snd (SetManifest registry_env_compose registry_compose_example ''myapp/web'' ''run''
       manifest_example)
     = [NewFileInstaller \<lparr>EnvFile = False, CfgServiceName = ''myapp'', CfgUser = [],
          StageOnly = False\<rparr>,
        CopyInto ''services: {}'', Close, Close]"
proof -
  have repo: "CountByte ''myapp/web'' (CHR ''/'') = 1"
    by (simp add: CountByte_def)
  have io: "read_err (DB (reg_host registry_example)) = None"
    "write_err (DB (reg_host registry_example)) = None"
    "manifest_write_err registry_example = None"
    and io2: "read_err (DB (reg_host registry_compose_example)) = None"
    "write_err (DB (reg_host registry_compose_example)) = None"
    "manifest_write_err registry_compose_example = None"
    by (simp_all add: registry_example_def registry_compose_example_def host_example_def)
  have m: "manifest_ref_example
      = \<lparr>ContentType = ManifestContentType manifest_example,
         BlobHash = sha256_hex registry_env_example (Blob manifest_example)\<rparr>"
    and m2: "manifest_ref_example
      = \<lparr>ContentType = ManifestContentType manifest_example,
         BlobHash = sha256_hex registry_env_compose (Blob manifest_example)\<rparr>"
    by (simp_all add: manifest_ref_example_def manifest_example_def registry_env_example_def
        registry_env_compose_def)
  have before: "refs_of registry_example ''myapp/web'' = Map.empty"
    by (simp add: refs_of_def registry_example_def host_example_def)
  have svc: "fst (Cut ''myapp/web'' ''/'') = ''myapp''"
    by (simp add: Cut_def HasPrefix_def)
  have dir: "serviceDataDir (reg_host registry_example) ''myapp'' = ''/srv/myapp/data''"
    by (simp add: serviceDataDir_def serviceRootDir_def registry_example_def host_example_def
        HasPrefix_def)
  have host: "InternalRegistryHost @ ''/myapp/web'' = ''catchit.dev/myapp/web''"
    by (simp add: InternalRegistryHost_def)
  have env: "newInstaller registry_env_example = (\<lambda>_. None)" "copy_err registry_env_example = None"
    "newInstaller registry_env_compose = (\<lambda>_. None)" "copy_err registry_env_compose = None"
    "ReadFile registry_env_compose ''/srv/myapp/bin/compose-1.yml'' = Inr ''services: {}''"
    by (simp_all add: registry_env_example_def registry_env_compose_def)
  have noprev: "Services (content (DB (reg_host registry_example))) ''myapp'' = Some myapp_env"
    "\<not> snd (Gen (Artifacts myapp_env) ArtifactDockerComposeFile (Generation myapp_env - 1))"
    by (simp_all add: registry_example_def host_example_def myapp_env_def)
  have prev: "Services (content (DB (reg_host registry_compose_example))) ''myapp''
      = Some myapp_compose"
    "0 < Generation myapp_compose"
    "Gen (Artifacts myapp_compose) ArtifactDockerComposeFile (Generation myapp_compose - 1)
      = (''/srv/myapp/bin/compose-1.yml'', True)"
    by (simp_all add: registry_compose_example_def host_example_def myapp_compose_def)
  have latest: "refs_of (fst (SetManifest registry_env_example registry_example ''myapp/web''
       ''latest'' manifest_example)) ''myapp/web'' = [''staged'' \<mapsto> manifest_ref_example]
     \<and> snd (SetManifest registry_env_example registry_example ''myapp/web'' ''latest''
       manifest_example)
     = [NewFileInstaller \<lparr>EnvFile = False, CfgServiceName = ''myapp'', CfgUser = [],
          StageOnly = True\<rparr>,
        CopyInto (composeTemplate ''myapp'' ''catchit.dev/myapp/web'' ''/srv/myapp/data''),
        Close, Close]"
    using SetManifest_tag_mapping [OF repo io m refl refl, where tag = "''latest''"
        and s = myapp_env and prevFile = "[]" and prev = "[]"]
    by (simp add: before svc dir host env noprev)
  have run: "refs_of (fst (SetManifest registry_env_example registry_example ''myapp/web''
       ''run'' manifest_example)) ''myapp/web''
       = [''run'' \<mapsto> manifest_ref_example, ''staged'' \<mapsto> manifest_ref_example]
     \<and> snd (SetManifest registry_env_example registry_example ''myapp/web'' ''run''
       manifest_example)
     = [NewFileInstaller \<lparr>EnvFile = False, CfgServiceName = ''myapp'', CfgUser = [],
          StageOnly = False\<rparr>,
        CopyInto (composeTemplate ''myapp'' ''catchit.dev/myapp/web'' ''/srv/myapp/data''),
        Close, Close]"
    using SetManifest_tag_mapping [OF repo io m refl refl, where tag = "''run''"
        and s = myapp_env and prevFile = "[]" and prev = "[]"]
    by (simp add: before svc dir host env noprev)
  have v1: "refs_of (fst (SetManifest registry_env_example registry_example ''myapp/web''
       ''v1'' manifest_example)) ''myapp/web'' = [''v1'' \<mapsto> manifest_ref_example]"
    using SetManifest_tag_mapping [OF repo io m refl refl, where tag = "''v1''"
        and s = myapp_env and prevFile = "[]" and prev = "[]"]
    by (simp add: before)
  have carried: "snd (SetManifest registry_env_compose registry_compose_example ''myapp/web''
       ''run'' manifest_example)
     = [NewFileInstaller \<lparr>EnvFile = False, CfgServiceName = ''myapp'', CfgUser = [],
          StageOnly = False\<rparr>,
        CopyInto ''services: {}'', Close, Close]"
    using SetManifest_tag_mapping [OF repo io2 m2 refl refl, where tag = "''run''"
        and s = myapp_compose and prevFile = "''/srv/myapp/bin/compose-1.yml''"
        and prev = "''services: {}''"]
    by (simp add: svc env prev)
  from latest run v1 carried show ?thesis by simp
qed

end
